theory Spec2Isabelle
  imports Main "HOL-Library.Sublist" "HOL-Library.Char_ord" "HOL-Library.List_Lexorder"
begin

section \<open>Related Website Sets: the checks of RwsCheck.py\<close>

text \<open>
  The class \<open>RwsCheck\<close> holds the submitted document (\<open>rws_sites\<close>), the public
  suffix list (\<open>etlds\<close>), the ICANN country codes (\<open>icanns\<close>) and two growing lists
  of messages, \<open>error_list\<close> and \<open>warning_texts\<close>. Every method is modelled as a
  function that takes the object's mutable part and returns it updated. Python
  dictionaries keep insertion order, and several checks depend on it, so a dictionary is
  an association list whose keys are distinct.
\<close>

subsection \<open>Data\<close>

text \<open>
  One element of \<open>rws_sites['sets']\<close>. The document has passed the JSON schema, so
  \<open>primary\<close> is a string; the other keys may be absent (\<open>None\<close>).
\<close>

record rwset =
  j_primary :: string
  j_ccTLDs :: "(string \<times> string list) list option"
  j_associatedSites :: "string list option"
  j_serviceSites :: "string list option"
  j_rationaleBySite :: "(string \<times> string) list option"

text \<open>
  The attributes of an \<open>RwsSet\<close> object; \<open>rws_primary\<close> is its attribute \<open>primary\<close>
  (the checks use \<open>primary\<close> as a local variable). The primary of a Set of the
  submission is a string; the Set built from a fetched manifest has \<open>None\<close> there when the
  manifest has no such key, so the type of the attribute is a parameter.
\<close>

record 'p RwsSet =
  ccTLDs :: "(string \<times> string list) list"
  rws_primary :: 'p
  associated_sites :: "string list"
  service_sites :: "string list"

text \<open>
  Modelled from the spec: the constructor of \<open>RwsSet\<close> (module \<open>RwsSet\<close> is imported by
  RwsCheck.py and is not among the sources). A Set has a primary, a ccTLD alias map and
  two ordered sequences of sites; the three optional parts of a record are empty when
  the record leaves them out.
\<close>

definition RwsSet_init ::
  "(string \<times> string list) list option \<Rightarrow> 'p \<Rightarrow> string list option \<Rightarrow> string list option
    \<Rightarrow> 'p RwsSet" where
  "RwsSet_init cc p assoc serv =
     \<lparr> ccTLDs = (case cc of None \<Rightarrow> [] | Some m \<Rightarrow> m),
       rws_primary = p,
       associated_sites = (case assoc of None \<Rightarrow> [] | Some xs \<Rightarrow> xs),
       service_sites = (case serv of None \<Rightarrow> [] | Some xs \<Rightarrow> xs) \<rparr>"

text \<open>
  Modelled from the spec: the method \<open>RwsSet.includes\<close> (same missing module), "a query
  over its own primary/associated/service membership" with a primary-only flag.
\<close>

definition includes' :: "string RwsSet \<Rightarrow> string \<Rightarrow> bool \<Rightarrow> bool" where
  "includes' s domain primary_only =
     (domain = rws_primary s \<or>
      (\<not> primary_only \<and> (domain \<in> set (associated_sites s) \<or> domain \<in> set (service_sites s))))"

text \<open>
  The mutable part of an \<open>RwsCheck\<close> object, and the outside world the remote checks
  talk to (a value of type \<open>'w\<close>, changed by every request).
\<close>

record 'w rws_check =
  error_list :: "string list"
  warning_texts :: "string list"
  world :: 'w

definition init :: "'w \<Rightarrow> 'w rws_check" where
  "init w = \<lparr> error_list = [], warning_texts = [], world = w \<rparr>"

type_synonym check_sets = "(string \<times> string RwsSet) list"

subsection \<open>load_sets\<close>

fun load_sets_loop ::
  "rwset list \<Rightarrow> check_sets \<times> string list \<Rightarrow> check_sets \<times> string list" where
  "load_sets_loop [] (check_sets, load_sets_errors) = (check_sets, load_sets_errors)"
| "load_sets_loop (r # rs) (check_sets, load_sets_errors) =
     (if j_primary r \<in> set (map fst check_sets)
      then load_sets_loop rs
             (check_sets,
              load_sets_errors @ [j_primary r @ '' is already a primary of another site''])
      else load_sets_loop rs
             (check_sets @
                [(j_primary r,
                  RwsSet_init (j_ccTLDs r) (j_primary r) (j_associatedSites r) (j_serviceSites r))],
              load_sets_errors))"

definition load_sets :: "rwset list \<Rightarrow> 'w rws_check \<Rightarrow> check_sets \<times> 'w rws_check" where
  "load_sets rws_sites self =
     (case load_sets_loop rws_sites ([], []) of
        (check_sets, load_sets_errors) \<Rightarrow>
          (check_sets, self\<lparr>error_list := error_list self @ load_sets_errors\<rparr>))"

subsection \<open>Appending to the two lists\<close>

definition error_list_append :: "string \<Rightarrow> 'w rws_check \<Rightarrow> 'w rws_check" where
  "error_list_append msg self = self\<lparr>error_list := error_list self @ [msg]\<rparr>"

definition error_list_extend :: "string list \<Rightarrow> 'w rws_check \<Rightarrow> 'w rws_check" where
  "error_list_extend msgs self = self\<lparr>error_list := error_list self @ msgs\<rparr>"

definition warning_texts_append :: "string \<Rightarrow> 'w rws_check \<Rightarrow> 'w rws_check" where
  "warning_texts_append msg self = self\<lparr>warning_texts := warning_texts self @ [msg]\<rparr>"

text \<open>
  The loop \<open>for x in xs: if not ok(x): self.error_list.append(msg(x))\<close>, which
  \<open>find_non_https_urls\<close> and \<open>find_invalid_eTLD_Plus1\<close> run over every field of a Set.
\<close>

fun report_each ::
  "(string \<Rightarrow> bool) \<Rightarrow> (string \<Rightarrow> string) \<Rightarrow> string list \<Rightarrow> 'w rws_check \<Rightarrow> 'w rws_check" where
  "report_each ok msg [] self = self"
| "report_each ok msg (x # xs) self =
     report_each ok msg xs (if \<not> ok x then error_list_append (msg x) self else self)"

subsection \<open>has_all_rationales\<close>

text \<open>
  \<open>rwset.get(key, [])\<close>: the value of an optional list, \<open>[]\<close> when the key is absent.
\<close>

definition get_list :: "'a list option \<Rightarrow> 'a list" where
  "get_list v = (case v of None \<Rightarrow> [] | Some xs \<Rightarrow> xs)"

text \<open>
  The body of the loop over the raw records. \<open>sites\<close> is the concatenation of two lists,
  so as a Python value it is never \<open>None\<close>: it is \<open>Some\<close> list here, which keeps the two
  tests of the source, \<open>if sites\<close> (a non-empty list) and \<open>sites != None\<close>, apart.
\<close>

definition has_all_rationales_record :: "check_sets \<Rightarrow> rwset \<Rightarrow> 'w rws_check \<Rightarrow> 'w rws_check" where
  "has_all_rationales_record check_sets r self =
     (if j_primary r \<notin> set (map fst check_sets) then self
      else
        let sites = Some (get_list (j_associatedSites r) @ get_list (j_serviceSites r));
            rationales = j_rationaleBySite r;
            self1 =
              (case (sites, rationales) of
                 (Some ss, Some rat) \<Rightarrow>
                   if ss \<noteq> [] then
                     report_each (\<lambda>site. site \<in> set (map fst rat))
                       (\<lambda>site. ''There is no provided rationale for '' @ site) ss self
                   else self
               | _ \<Rightarrow> self)
        in if sites \<noteq> None \<and> rationales = None
           then error_list_append
                  (''A rationaleBySite field is required for this set, but''
                   @ '' none is provided. '') self1
           else self1)"

definition has_all_rationales :: "rwset list \<Rightarrow> check_sets \<Rightarrow> 'w rws_check \<Rightarrow> 'w rws_check" where
  "has_all_rationales rws_sites check_sets self =
     foldl (\<lambda>s r. has_all_rationales_record check_sets r s) self rws_sites"

subsection \<open>check_exclusivity\<close>

text \<open>
  \<open>site_list\<close> is a Python set of strings. \<open>site_list.update(primary)\<close> is called with
  the string \<open>primary\<close> itself, and \<open>set.update\<close> adds the elements of its argument: the
  characters of the primary, each a string of length one. The three later steps call
  \<open>update\<close> with a list of sites and add the sites. The messages print a set, whose
  order of elements the runtime decides: \<open>str_set\<close> is that formatting.
\<close>

definition update_str :: "string set \<Rightarrow> string \<Rightarrow> string set" where
  "update_str site_list s = site_list \<union> (\<lambda>c. [c]) ` set s"

definition check_exclusivity_aliases ::
  "(string set \<Rightarrow> string) \<Rightarrow> string set \<times> 'w rws_check \<Rightarrow> string list
    \<Rightarrow> string set \<times> 'w rws_check" where
  "check_exclusivity_aliases str_set st aliases =
     (case st of (site_list, self) \<Rightarrow>
        let alias_overlap = set aliases \<inter> site_list in
        if alias_overlap \<noteq> {}
        then (site_list,
              error_list_append
                (''These ccTLD sites are already registered in ''
                 @ ''another related website set: '' @ str_set alias_overlap) self)
        else (site_list \<union> set aliases, self))"

definition check_exclusivity_set ::
  "(string set \<Rightarrow> string) \<Rightarrow> string set \<times> 'w rws_check \<Rightarrow> string \<times> string RwsSet
    \<Rightarrow> string set \<times> 'w rws_check" where
  "check_exclusivity_set str_set st entry =
     (case (st, entry) of ((site_list, self), (primary, rws)) \<Rightarrow>
        let (site_list1, self1) =
              (if primary \<in> site_list
               then (site_list,
                     error_list_append
                       (''This primary is already registered in another related website''
                        @ '' set: '' @ primary) self)
               else (update_str site_list primary, self));
            associated_overlap = set (associated_sites rws) \<inter> site_list1;
            (site_list2, self2) =
              (if associated_overlap \<noteq> {}
               then (site_list1,
                     error_list_append
                       (''These associated sites are already registered in ''
                        @ ''another related website set: '' @ str_set associated_overlap) self1)
               else (site_list1 \<union> set (associated_sites rws), self1));
            service_overlap = set (service_sites rws) \<inter> site_list2;
            (site_list3, self3) =
              (if service_overlap \<noteq> {}
               then (site_list2,
                     error_list_append
                       (''These service sites are already registered in another''
                        @ '' related website set: '' @ str_set service_overlap) self2)
               else (site_list2 \<union> set (service_sites rws), self2))
        in foldl (check_exclusivity_aliases str_set) (site_list3, self3) (map snd (ccTLDs rws)))"

definition check_exclusivity ::
  "(string set \<Rightarrow> string) \<Rightarrow> check_sets \<Rightarrow> 'w rws_check \<Rightarrow> 'w rws_check" where
  "check_exclusivity str_set check_sets self =
     snd (foldl (check_exclusivity_set str_set) ({}, self) check_sets)"

subsection \<open>check_associated_count\<close>

definition ASSOCIATED_LIMIT :: nat where
  "ASSOCIATED_LIMIT = 5"

text \<open>The decimal digits of a number, as an f-string prints it.\<close>

fun str_nat :: "nat \<Rightarrow> string" where
  "str_nat n =
     (if n < 10 then [''0123456789'' ! n]
      else str_nat (n div 10) @ [''0123456789'' ! (n mod 10)])"

definition check_associated_count_set :: "'w rws_check \<Rightarrow> string \<times> string RwsSet \<Rightarrow> 'w rws_check" where
  "check_associated_count_set self entry =
     (case entry of (primary, rws) \<Rightarrow>
        if length (associated_sites rws) > ASSOCIATED_LIMIT
        then warning_texts_append
               (''Warning: the set for '' @ primary @ '' contains more than ''
                @ str_nat ASSOCIATED_LIMIT @ '' associated sites.'') self
        else self)"

definition check_associated_count :: "check_sets \<Rightarrow> 'w rws_check \<Rightarrow> 'w rws_check" where
  "check_associated_count check_sets self = foldl check_associated_count_set self check_sets"

subsection \<open>find_non_https_urls and find_invalid_eTLD_Plus1\<close>

definition url_is_https :: "string \<Rightarrow> bool" where
  "url_is_https site = prefix ''https://'' site"

text \<open>
  Both checks walk a Set in the same order: the primary, then for every ccTLD entry the
  aliased site and its aliases, then the associated sites, then the service sites.
\<close>

definition find_non_https_urls_ccTLD :: "'w rws_check \<Rightarrow> string \<times> string list \<Rightarrow> 'w rws_check" where
  "find_non_https_urls_ccTLD self entry =
     (case entry of (aliased_site, aliases) \<Rightarrow>
        report_each url_is_https
          (\<lambda>alias. ''The provided alias site does not begin with https:// '' @ alias) aliases
          (report_each url_is_https
             (\<lambda>a. ''The provided aliased site does not begin with https:// '' @ a)
             [aliased_site] self))"

definition find_non_https_urls_set :: "'w rws_check \<Rightarrow> string \<times> string RwsSet \<Rightarrow> 'w rws_check" where
  "find_non_https_urls_set self entry =
     (case entry of (primary, curr_set) \<Rightarrow>
        let self1 = report_each url_is_https
                      (\<lambda>p. ''The provided primary site does not begin with https:// '' @ p)
                      [primary] self;
            self2 = foldl find_non_https_urls_ccTLD self1 (ccTLDs curr_set);
            self3 = report_each url_is_https
                      (\<lambda>a. ''The provided associated site does not begin with https:// '' @ a)
                      (associated_sites curr_set) self2
        in report_each url_is_https
             (\<lambda>s. ''The provided service site does not begin with https:// '' @ s)
             (service_sites curr_set) self3)"

definition find_non_https_urls :: "check_sets \<Rightarrow> 'w rws_check \<Rightarrow> 'w rws_check" where
  "find_non_https_urls check_sets self = foldl find_non_https_urls_set self check_sets"

text \<open>
  The public suffix list is an object of the package \<open>publicsuffix2\<close>. The check calls
  its methods \<open>get_sld\<close> and \<open>get_tld\<close> with \<open>strict=True\<close>; each returns a string or
  \<open>None\<close>.
\<close>

record PublicSuffixList =
  get_sld :: "string \<Rightarrow> string option"
  get_tld :: "string \<Rightarrow> string option"

definition removeprefix :: "string \<Rightarrow> string \<Rightarrow> string" where
  "removeprefix p s = (if prefix p s then drop (length p) s else s)"

definition is_eTLD_Plus1 :: "PublicSuffixList \<Rightarrow> string \<Rightarrow> bool" where
  "is_eTLD_Plus1 etlds site0 =
     (let site = removeprefix ''https://'' site0;
          is_etldp1_or_etld = (get_sld etlds site = Some site);
          is_etld = (get_tld etlds site = Some site)
      in is_etldp1_or_etld \<and> \<not> is_etld)"

definition find_invalid_eTLD_Plus1_ccTLD ::
  "PublicSuffixList \<Rightarrow> 'w rws_check \<Rightarrow> string \<times> string list \<Rightarrow> 'w rws_check" where
  "find_invalid_eTLD_Plus1_ccTLD etlds self entry =
     (case entry of (aliased_site, aliases) \<Rightarrow>
        report_each (is_eTLD_Plus1 etlds)
          (\<lambda>alias. ''The provided alias site is not an eTLD+1: '' @ alias) aliases
          (report_each (is_eTLD_Plus1 etlds)
             (\<lambda>a. ''The provided aliased site is not an eTLD+1: '' @ a) [aliased_site] self))"

definition find_invalid_eTLD_Plus1_set ::
  "PublicSuffixList \<Rightarrow> 'w rws_check \<Rightarrow> string \<times> string RwsSet \<Rightarrow> 'w rws_check" where
  "find_invalid_eTLD_Plus1_set etlds self entry =
     (case entry of (primary, curr_set) \<Rightarrow>
        let self1 = report_each (is_eTLD_Plus1 etlds)
                      (\<lambda>p. ''The provided primary site is not an eTLD+1: '' @ p) [primary] self;
            self2 = foldl (find_invalid_eTLD_Plus1_ccTLD etlds) self1 (ccTLDs curr_set);
            self3 = report_each (is_eTLD_Plus1 etlds)
                      (\<lambda>a. ''The provided associated site is not an eTLD+1: '' @ a)
                      (associated_sites curr_set) self2
        in report_each (is_eTLD_Plus1 etlds)
             (\<lambda>s. ''The provided service site is not an eTLD+1: '' @ s)
             (service_sites curr_set) self3)"

definition find_invalid_eTLD_Plus1 ::
  "PublicSuffixList \<Rightarrow> check_sets \<Rightarrow> 'w rws_check \<Rightarrow> 'w rws_check" where
  "find_invalid_eTLD_Plus1 etlds check_sets self =
     foldl (find_invalid_eTLD_Plus1_set etlds) self check_sets"

subsection \<open>find_invalid_alias_eSLDs\<close>

text \<open>\<open>s.split(sep)\<close> for a separator of one character: never an empty list.\<close>

fun split_on :: "char \<Rightarrow> string \<Rightarrow> string list" where
  "split_on sep [] = [[]]"
| "split_on sep (c # cs) =
     (if c = sep then [] # split_on sep cs
      else (case split_on sep cs of [] \<Rightarrow> [[c]] | w # ws \<Rightarrow> (c # w) # ws))"

definition find_invalid_alias_eSLDs_variant ::
  "string set \<Rightarrow> string \<Rightarrow> string \<Rightarrow> 'w rws_check \<Rightarrow> string \<times> string \<times> string \<Rightarrow> 'w rws_check" where
  "find_invalid_alias_eSLDs_variant icann_check aliased_site aliased_eSLD self variant =
     (case variant of (site, eSLD, tld) \<Rightarrow>
        let self1 =
              (if eSLD \<noteq> aliased_eSLD
               then error_list_append
                      (''The following top level domain must match: '' @ aliased_site
                       @ '', but is instead: '' @ site) self
               else self)
        in if tld \<notin> icann_check
           then error_list_append
                  (''The provided country code: '' @ tld @ '', in: '' @ site
                   @ '' is not a ICANN registered country code'') self1
           else self1)"

definition find_invalid_alias_eSLDs_ccTLD ::
  "string set \<Rightarrow> string \<Rightarrow> string RwsSet \<Rightarrow> 'w rws_check \<Rightarrow> string \<times> string list \<Rightarrow> 'w rws_check" where
  "find_invalid_alias_eSLDs_ccTLD icanns primary curr_set self entry =
     (case entry of (aliased_site, aliases) \<Rightarrow>
        let self1 =
              (if \<not> includes' curr_set aliased_site False
               then error_list_append
                      (''The aliased site '' @ aliased_site
                       @ '' contained within the ccTLDs must be a ''
                       @ ''primary, associated site, or service site ''
                       @ ''within the firsty pary set for '' @ primary) self
               else self);
            aliased_eSLD = hd (split_on CHR ''.'' aliased_site);
            aliased_tld = last (split_on CHR ''.'' aliased_site);
            icann_check = (if aliased_tld \<in> icanns then icanns \<union> {''com''} else icanns);
            variants =
              map (\<lambda>site. (site, hd (split_on CHR ''.'' site), last (split_on CHR ''.'' site)))
                aliases
        in foldl (find_invalid_alias_eSLDs_variant icann_check aliased_site aliased_eSLD)
             self1 variants)"

definition find_invalid_alias_eSLDs_set ::
  "string set \<Rightarrow> 'w rws_check \<Rightarrow> string \<times> string RwsSet \<Rightarrow> 'w rws_check" where
  "find_invalid_alias_eSLDs_set icanns self entry =
     (case entry of (primary, curr_set) \<Rightarrow>
        foldl (find_invalid_alias_eSLDs_ccTLD icanns primary curr_set) self (ccTLDs curr_set))"

definition find_invalid_alias_eSLDs ::
  "string set \<Rightarrow> check_sets \<Rightarrow> 'w rws_check \<Rightarrow> 'w rws_check" where
  "find_invalid_alias_eSLDs icanns check_sets self =
     foldl (find_invalid_alias_eSLDs_set icanns) self check_sets"

subsection \<open>The remote checks\<close>

definition WELL_KNOWN :: string where
  "WELL_KNOWN = ''/.well-known/related-website-set.json''"

text \<open>
  What the checks read of a \<open>requests\<close> response: the status code, the final URL and
  the headers (a dictionary that ignores the case of its keys, so a lookup function).
\<close>

record response =
  r_status_code :: int
  r_url :: string
  r_headers :: "string \<Rightarrow> string option"

text \<open>
  The JSON object of a well-known file, read with \<open>.get\<close>: every key may be absent.
  The values are taken to have the types the schema gives them.
\<close>

record wk_json =
  w_ccTLDs :: "(string \<times> string list) list option"
  w_primary :: "string option"
  w_associatedSites :: "string list option"
  w_serviceSites :: "string list option"

text \<open>
  The network. \<open>requests_get url allow_redirects\<close> is \<open>requests.get\<close> with
  \<open>timeout=10\<close>, and \<open>open_and_load_json url\<close> the method of that name (\<open>urlopen\<close>
  followed by \<open>json.load\<close>). Both change the world and either return a value (\<open>Inr\<close>)
  or raise an exception (\<open>Inl\<close>, carrying the text \<open>str(inst)\<close> of the exception). For
  \<open>open_and_load_json\<close>, \<open>Inl\<close> also stands for a body that is not a JSON object, on
  which the first \<open>.get\<close> or \<open>.keys\<close> raises inside the same \<open>try\<close>.
\<close>

record 'w net =
  requests_get :: "string \<Rightarrow> bool \<Rightarrow> 'w \<Rightarrow> (string + response) \<times> 'w"
  open_and_load_json :: "string \<Rightarrow> 'w \<Rightarrow> (string + wk_json) \<times> 'w"

definition check_list_sites_site ::
  "'w net \<Rightarrow> string \<Rightarrow> 'w rws_check \<Rightarrow> string \<Rightarrow> 'w rws_check" where
  "check_list_sites_site net primary self site =
     (let url = site @ WELL_KNOWN in
      case open_and_load_json net url (world self) of
        (Inr json_schema, w) \<Rightarrow>
          if w_primary json_schema = None
          then error_list_append
                 (''The listed associated site site did not have primary''
                  @ '' as a key in its '' @ WELL_KNOWN @ '' file: '' @ site)
                 (self\<lparr>world := w\<rparr>)
          else if w_primary json_schema \<noteq> Some primary
          then error_list_append
                 (''The listed associated site ''
                  @ ''did not have '' @ primary @ '' listed as its primary: '' @ site)
                 (self\<lparr>world := w\<rparr>)
          else self\<lparr>world := w\<rparr>
      | (Inl inst, w) \<Rightarrow>
          error_list_append
            (''Experienced an error when trying to access '' @ url @ ''; ''
             @ ''error was: '' @ inst)
            (self\<lparr>world := w\<rparr>))"

definition check_list_sites ::
  "'w net \<Rightarrow> string \<Rightarrow> string list \<Rightarrow> 'w rws_check \<Rightarrow> 'w rws_check" where
  "check_list_sites net primary site_list self =
     foldl (check_list_sites_site net primary) self site_list"

text \<open>
  \<open>sorted(set(list1) ^ set(list2))\<close>: the symmetric difference of the two sets of
  elements, in increasing order. \<open>str_list\<close> is how an f-string prints a list.
\<close>

definition check_well_known_list ::
  "(string list \<Rightarrow> string) \<Rightarrow> string \<Rightarrow> string list \<Rightarrow> string list \<Rightarrow> string list" where
  "check_well_known_list str_list field list1 list2 =
     (if list1 = list2 then []
      else
        let diff = sorted_list_of_set ((set list1 - set list2) \<union> (set list2 - set list1)) in
        [''Encountered an inequality between the PR submission and the '' @ WELL_KNOWN
         @ '' file:'' @ [CHR 0x0A]
         @ [CHR 0x09] @ field @ '' was '' @ str_list list1 @ '' in the PR, and ''
         @ str_list list2 @ '' in the well-known.'' @ [CHR 0x0A]
         @ [CHR 0x09] @ ''Diff was: '' @ str_list diff @ ''.''])"

text \<open>\<open>str\<close> of a value that is a string or \<open>None\<close>.\<close>

definition str_opt :: "string option \<Rightarrow> string" where
  "str_opt v = (case v of None \<Rightarrow> ''None'' | Some s \<Rightarrow> s)"

text \<open>\<open>d.get(k, [])\<close>, and the keys of \<open>d1 | d2\<close> in their order.\<close>

definition dict_get :: "(string \<times> string list) list \<Rightarrow> string \<Rightarrow> string list" where
  "dict_get d k = (case map_of d k of None \<Rightarrow> [] | Some v \<Rightarrow> v)"

definition union_keys ::
  "(string \<times> string list) list \<Rightarrow> (string \<times> string list) list \<Rightarrow> string list" where
  "union_keys d1 d2 = map fst d1 @ filter (\<lambda>k. k \<notin> set (map fst d1)) (map fst d2)"

definition find_invalid_well_known_set ::
  "(string list \<Rightarrow> string) \<Rightarrow> 'w net \<Rightarrow> 'w rws_check \<Rightarrow> string \<times> string RwsSet \<Rightarrow> 'w rws_check" where
  "find_invalid_well_known_set str_list net self entry =
     (case entry of (primary, curr_rws_set) \<Rightarrow>
        let url = primary @ WELL_KNOWN;
            self5 =
              (case open_and_load_json net url (world self) of
                 (Inr json_schema, w) \<Rightarrow>
                   let well_known_set =
                         RwsSet_init (w_ccTLDs json_schema) (w_primary json_schema)
                           (w_associatedSites json_schema) (w_serviceSites json_schema);
                       self1 =
                         (if rws_primary well_known_set \<noteq> Some (rws_primary curr_rws_set)
                          then error_list_append
                                 (''The '' @ WELL_KNOWN @ '' set's primary (''
                                  @ str_opt (rws_primary well_known_set) @ '') did not equal ''
                                  @ ''the PR set's primary ('' @ rws_primary curr_rws_set @ '')'')
                                 (self\<lparr>world := w\<rparr>)
                          else self\<lparr>world := w\<rparr>);
                       self2 =
                         error_list_extend
                           (check_well_known_list str_list ''associatedSites''
                              (associated_sites curr_rws_set) (associated_sites well_known_set))
                           self1;
                       self3 =
                         error_list_extend
                           (check_well_known_list str_list ''serviceSites''
                              (service_sites curr_rws_set) (service_sites well_known_set))
                           self2
                   in foldl
                        (\<lambda>s aliased_site.
                           error_list_extend
                             (check_well_known_list str_list (aliased_site @ '' alias list'')
                                (dict_get (ccTLDs curr_rws_set) aliased_site)
                                (dict_get (ccTLDs well_known_set) aliased_site))
                             s)
                        self3 (union_keys (ccTLDs curr_rws_set) (ccTLDs well_known_set))
               | (Inl inst, w) \<Rightarrow>
                   error_list_append
                     (''Experienced an error when trying to access '' @ url
                      @ ''; error was: '' @ inst)
                     (self\<lparr>world := w\<rparr>))
        in check_list_sites net primary
             (associated_sites curr_rws_set @ service_sites curr_rws_set
              @ concat (map snd (ccTLDs curr_rws_set)))
             self5)"

definition find_invalid_well_known ::
  "(string list \<Rightarrow> string) \<Rightarrow> 'w net \<Rightarrow> check_sets \<Rightarrow> 'w rws_check \<Rightarrow> 'w rws_check" where
  "find_invalid_well_known str_list net check_sets self =
     foldl (find_invalid_well_known_set str_list net) self check_sets"

definition find_invalid_removal_primary ::
  "'w net \<Rightarrow> 'w rws_check \<Rightarrow> string \<Rightarrow> 'w rws_check" where
  "find_invalid_removal_primary net self primary =
     (let url = primary @ WELL_KNOWN in
      case requests_get net url True (world self) of
        (Inr r, w) \<Rightarrow>
          if r_status_code r \<noteq> 404
          then error_list_append
                 (''The set associated with '' @ primary
                  @ '' was removed from the list, but '' @ url
                  @ '' does not return error 404.'')
                 (self\<lparr>world := w\<rparr>)
          else self\<lparr>world := w\<rparr>
      | (Inl inst, w) \<Rightarrow>
          error_list_append
            (''Unexpected error when accessing '' @ url @ ''; Received error: '' @ inst)
            (self\<lparr>world := w\<rparr>))"

definition find_invalid_removal :: "'w net \<Rightarrow> check_sets \<Rightarrow> 'w rws_check \<Rightarrow> 'w rws_check" where
  "find_invalid_removal net subtracted_sets self =
     foldl (find_invalid_removal_primary net) self (map fst subtracted_sets)"

definition find_robots_tag_site :: "'w net \<Rightarrow> 'w rws_check \<Rightarrow> string \<Rightarrow> 'w rws_check" where
  "find_robots_tag_site net self service_site =
     (case requests_get net service_site False (world self) of
        (Inr r_service, w) \<Rightarrow>
          (case r_headers r_service ''X-Robots-Tag'' of
             None \<Rightarrow>
               error_list_append
                 (''The service site '' @ service_site
                  @ '' does not have an X-Robots-Tag in its '' @ ''header'')
                 (self\<lparr>world := w\<rparr>)
           | Some robots_tag \<Rightarrow>
               if sublist '':'' robots_tag
               then error_list_append
                      (''The service site '' @ service_site
                       @ '' contains an 'X-Robots-Tag' ''
                       @ ''that does not meet the policy requirements'')
                      (self\<lparr>world := w\<rparr>)
               else if \<not> sublist ''none'' robots_tag \<and> \<not> sublist ''noindex'' robots_tag
               then error_list_append
                      (''The service site '' @ service_site
                       @ '' does not have a 'noindex' or 'none' tag in its header'')
                      (self\<lparr>world := w\<rparr>)
               else self\<lparr>world := w\<rparr>)
      | (Inl inst, w) \<Rightarrow>
          error_list_append
            (''Unexpected error for service site: '' @ service_site
             @ ''; Received error: '' @ inst)
            (self\<lparr>world := w\<rparr>))"

definition find_robots_tag :: "'w net \<Rightarrow> check_sets \<Rightarrow> 'w rws_check \<Rightarrow> 'w rws_check" where
  "find_robots_tag net check_sets self =
     foldl (\<lambda>s curr_set. foldl (find_robots_tag_site net) s (service_sites curr_set))
       self (map snd check_sets)"

definition exception_retries_ads :: string where
  "exception_retries_ads = ''Max retries exceeded with url: /ads.txt''"

definition exception_timeout :: string where
  "exception_timeout = ''Read timed out. (read timeout=10)''"

definition find_ads_txt_site :: "'w net \<Rightarrow> 'w rws_check \<Rightarrow> string \<Rightarrow> 'w rws_check" where
  "find_ads_txt_site net self service_site =
     (let ads_site = service_site @ ''/ads.txt'' in
      case requests_get net ads_site True (world self) of
        (Inr r, w) \<Rightarrow>
          if r_status_code r = 200
          then error_list_append
                 (''The service site '' @ service_site
                  @ '' has an ads.txt file, this violates ''
                  @ ''the policies for service sites'')
                 (self\<lparr>world := w\<rparr>)
          else self\<lparr>world := w\<rparr>
      | (Inl inst, w) \<Rightarrow>
          if \<not> sublist exception_retries_ads inst
          then if \<not> sublist exception_timeout inst
               then error_list_append
                      (''Unexpected error for service site: '' @ service_site @ [CHR 0x0A]
                       @ ''Received error: '' @ inst)
                      (self\<lparr>world := w\<rparr>)
               else self\<lparr>world := w\<rparr>
          else self\<lparr>world := w\<rparr>)"

definition find_ads_txt :: "'w net \<Rightarrow> check_sets \<Rightarrow> 'w rws_check \<Rightarrow> 'w rws_check" where
  "find_ads_txt net check_sets self =
     foldl (\<lambda>s curr_set. foldl (find_ads_txt_site net) s (service_sites curr_set))
       self (map snd check_sets)"

definition exception_retries_root :: string where
  "exception_retries_root = ''Max retries exceeded with url: /''"

definition check_for_service_redirect_site ::
  "'w net \<Rightarrow> 'w rws_check \<Rightarrow> string \<Rightarrow> 'w rws_check" where
  "check_for_service_redirect_site net self service_site =
     (case requests_get net service_site True (world self) of
        (Inr r, w) \<Rightarrow>
          if r_status_code r < 400 \<or> r_status_code r \<ge> 600
          then if r_url r = service_site \<or> r_url r = service_site @ ''/''
               then error_list_append
                      (''The service site must not be an endpoint: '' @ service_site)
                      (self\<lparr>world := w\<rparr>)
               else self\<lparr>world := w\<rparr>
          else self\<lparr>world := w\<rparr>
      | (Inl inst, w) \<Rightarrow>
          if \<not> sublist exception_retries_root inst
          then if \<not> sublist exception_timeout inst
               then error_list_append
                      (''Unexpected error for '' @ ''service site: '' @ service_site
                       @ [CHR 0x0A] @ ''Received error: '' @ inst)
                      (self\<lparr>world := w\<rparr>)
               else self\<lparr>world := w\<rparr>
          else self\<lparr>world := w\<rparr>)"

definition check_for_service_redirect ::
  "'w net \<Rightarrow> check_sets \<Rightarrow> 'w rws_check \<Rightarrow> 'w rws_check" where
  "check_for_service_redirect net check_sets self =
     foldl (\<lambda>s curr_set. foldl (check_for_service_redirect_site net) s (service_sites curr_set))
       self (map snd check_sets)"

section \<open>Notions used to state the properties\<close>

text \<open>
  The records of a document whose primary does not occur in an earlier record: with
  \<open>seen\<close> empty, the first record of every primary.
\<close>

fun first_records_from :: "string set \<Rightarrow> rwset list \<Rightarrow> rwset list" where
  "first_records_from seen [] = []"
| "first_records_from seen (r # rs) =
     (if j_primary r \<in> seen then first_records_from seen rs
      else r # first_records_from (insert (j_primary r) seen) rs)"

definition first_records :: "rwset list \<Rightarrow> rwset list" where
  "first_records rs = first_records_from {} rs"

text \<open>
  The errors one raw record gives in \<open>has_all_rationales\<close>, once it has passed the test
  on its primary.
\<close>

definition rationale_errors :: "rwset \<Rightarrow> string list" where
  "rationale_errors r =
     (case j_rationaleBySite r of
        None \<Rightarrow> [''A rationaleBySite field is required for this set, but none is provided. '']
      | Some rat \<Rightarrow>
          map (\<lambda>site. ''There is no provided rationale for '' @ site)
            (filter (\<lambda>site. site \<notin> set (map fst rat))
               (get_list (j_associatedSites r) @ get_list (j_serviceSites r))))"

text \<open>
  One way the runtime can print a set or a list of strings: the elements in quotes,
  separated by commas (a set in increasing order of its elements).
\<close>

fun join :: "string \<Rightarrow> string list \<Rightarrow> string" where
  "join sep [] = []"
| "join sep [x] = x"
| "join sep (x # y # ys) = x @ sep @ join sep (y # ys)"

definition str_list_quoted :: "string list \<Rightarrow> string" where
  "str_list_quoted xs = ''['' @ join '', '' (map (\<lambda>s. [CHR 0x27] @ s @ [CHR 0x27]) xs) @ '']''"

definition str_set_sorted :: "string set \<Rightarrow> string" where
  "str_set_sorted S =
     ''{'' @ join '', '' (map (\<lambda>s. [CHR 0x27] @ s @ [CHR 0x27]) (sorted_list_of_set S)) @ ''}''"

text \<open>
  The first and the last of the segments of a string that full stops separate, without
  splitting it.
\<close>

definition first_segment :: "string \<Rightarrow> string" where
  "first_segment s = takeWhile (\<lambda>c. c \<noteq> CHR ''.'') s"

definition last_segment :: "string \<Rightarrow> string" where
  "last_segment s = rev (takeWhile (\<lambda>c. c \<noteq> CHR ''.'') (rev s))"

text \<open>
  The top-level labels an alias of \<open>aliased_site\<close> may end in, and the errors of one
  ccTLD entry of a Set: one for an aliased site outside the Set, then for each alias one
  for a first segment that differs and one for a last segment that is not acceptable.
\<close>

definition acceptable_tlds :: "string set \<Rightarrow> string \<Rightarrow> string set" where
  "acceptable_tlds icanns aliased_site =
     (if last_segment aliased_site \<in> icanns then icanns \<union> {''com''} else icanns)"

definition alias_errors :: "string set \<Rightarrow> string \<Rightarrow> string \<Rightarrow> string list" where
  "alias_errors icanns aliased_site site =
     (if first_segment site \<noteq> first_segment aliased_site
      then [''The following top level domain must match: '' @ aliased_site
            @ '', but is instead: '' @ site]
      else [])
     @ (if last_segment site \<notin> acceptable_tlds icanns aliased_site
        then [''The provided country code: '' @ last_segment site @ '', in: '' @ site
              @ '' is not a ICANN registered country code'']
        else [])"

definition ccTLD_errors ::
  "string set \<Rightarrow> string \<Rightarrow> string RwsSet \<Rightarrow> string \<times> string list \<Rightarrow> string list" where
  "ccTLD_errors icanns primary curr_set entry =
     (if fst entry = rws_primary curr_set \<or> fst entry \<in> set (associated_sites curr_set)
         \<or> fst entry \<in> set (service_sites curr_set)
      then []
      else [''The aliased site '' @ fst entry
            @ '' contained within the ccTLDs must be a primary, associated site, or service site within the firsty pary set for ''
            @ primary])
     @ concat (map (alias_errors icanns (fst entry)) (snd entry))"

text \<open>
  The results of the requests \<open>requests.get(url, timeout=10)\<close> for a list of URLs, one
  after the other, from the world \<open>w\<close> on.
\<close>

fun get_all :: "'w net \<Rightarrow> bool \<Rightarrow> 'w \<Rightarrow> string list \<Rightarrow> (string + response) list" where
  "get_all net allow_redirects w [] = []"
| "get_all net allow_redirects w (u # us) =
     fst (requests_get net u allow_redirects w)
     # get_all net allow_redirects (snd (requests_get net u allow_redirects w)) us"

text \<open>
  Whether the outcome of the request for \<open><site>/ads.txt\<close> calls for a diagnostic:
  a response with status 200, or an exception whose text holds neither of the two
  benign patterns.
\<close>

definition ads_txt_finding :: "string + response \<Rightarrow> bool" where
  "ads_txt_finding res =
     (case res of
        Inr r \<Rightarrow> r_status_code r = 200
      | Inl inst \<Rightarrow>
          \<not> sublist ''Max retries exceeded with url: /ads.txt'' inst
          \<and> \<not> sublist ''Read timed out. (read timeout=10)'' inst)"

definition ads_txt_error :: "string \<Rightarrow> string + response \<Rightarrow> string" where
  "ads_txt_error service_site res =
     (case res of
        Inr r \<Rightarrow> ''The service site '' @ service_site
                 @ '' has an ads.txt file, this violates the policies for service sites''
      | Inl inst \<Rightarrow> ''Unexpected error for service site: '' @ service_site @ [CHR 0x0A]
                   @ ''Received error: '' @ inst)"

text \<open>
  A network for examples: the world counts the requests, four \<open>ads.txt\<close> addresses
  answer as listed, every other request times out, and no well-known file is found.
\<close>

definition sample_net :: "nat net" where
  "sample_net =
     \<lparr>requests_get = (\<lambda>url allow_redirects w.
          (case map_of
             [(''https://a.com/ads.txt'',
                 Inr \<lparr>r_status_code = 200, r_url = ''https://a.com/ads.txt'', r_headers = Map.empty\<rparr>),
              (''https://b.com/ads.txt'', Inl ''certificate verify failed''),
              (''https://c.com/ads.txt'',
                 Inl ''HTTPSConnectionPool: Max retries exceeded with url: /ads.txt (Caused by x)''),
              (''https://d.com/ads.txt'',
                 Inr \<lparr>r_status_code = 404, r_url = ''https://d.com/ads.txt'', r_headers = Map.empty\<rparr>)]
             url of
             Some res \<Rightarrow> res
           | None \<Rightarrow> Inl ''Read timed out. (read timeout=10)'',
           Suc w)),
      open_and_load_json = (\<lambda>url w. (Inl ''HTTP Error 404: Not Found'', Suc w))\<rparr>"

text \<open>
  \<open>errors_appended self self'\<close>: from \<open>self\<close> to \<open>self'\<close> the warnings are the same and the
  errors have only grown at the end.
\<close>

definition errors_appended :: "'w rws_check \<Rightarrow> 'w rws_check \<Rightarrow> bool" where
  "errors_appended self self' =
     (warning_texts self' = warning_texts self \<and> prefix (error_list self) (error_list self'))"

text \<open>
  A run is a sequence of calls of the methods that write diagnostics, in any order and
  with any arguments, on one \<open>RwsCheck\<close> object. (\<open>load_sets\<close> also returns the
  dictionary, which a run hands to the later calls as an argument.)
\<close>

datatype 'w method_call =
    Load_sets "rwset list"
  | Has_all_rationales "rwset list" check_sets
  | Check_exclusivity "string set \<Rightarrow> string" check_sets
  | Check_associated_count check_sets
  | Find_non_https_urls check_sets
  | Find_invalid_eTLD_Plus1 PublicSuffixList check_sets
  | Check_list_sites "'w net" string "string list"
  | Find_invalid_well_known "string list \<Rightarrow> string" "'w net" check_sets
  | Find_invalid_removal "'w net" check_sets
  | Find_invalid_alias_eSLDs "string set" check_sets
  | Find_robots_tag "'w net" check_sets
  | Find_ads_txt "'w net" check_sets
  | Check_for_service_redirect "'w net" check_sets

fun call :: "'w method_call \<Rightarrow> 'w rws_check \<Rightarrow> 'w rws_check" where
  "call (Load_sets rws_sites) self = snd (load_sets rws_sites self)"
| "call (Has_all_rationales rws_sites check_sets) self =
     has_all_rationales rws_sites check_sets self"
| "call (Check_exclusivity str_set check_sets) self = check_exclusivity str_set check_sets self"
| "call (Check_associated_count check_sets) self = check_associated_count check_sets self"
| "call (Find_non_https_urls check_sets) self = find_non_https_urls check_sets self"
| "call (Find_invalid_eTLD_Plus1 etlds check_sets) self =
     find_invalid_eTLD_Plus1 etlds check_sets self"
| "call (Check_list_sites net primary site_list) self =
     check_list_sites net primary site_list self"
| "call (Find_invalid_well_known str_list net check_sets) self =
     find_invalid_well_known str_list net check_sets self"
| "call (Find_invalid_removal net subtracted_sets) self =
     find_invalid_removal net subtracted_sets self"
| "call (Find_invalid_alias_eSLDs icanns check_sets) self =
     find_invalid_alias_eSLDs icanns check_sets self"
| "call (Find_robots_tag net check_sets) self = find_robots_tag net check_sets self"
| "call (Find_ads_txt net check_sets) self = find_ads_txt net check_sets self"
| "call (Check_for_service_redirect net check_sets) self =
     check_for_service_redirect net check_sets self"

definition run :: "'w method_call list \<Rightarrow> 'w rws_check \<Rightarrow> 'w rws_check" where
  "run calls self = foldl (\<lambda>s c. call c s) self calls"

text \<open>The warnings of the Sets with more than five associated sites.\<close>

definition count_warnings :: "check_sets \<Rightarrow> string list" where
  "count_warnings check_sets =
     map (\<lambda>e. ''Warning: the set for '' @ fst e @ '' contains more than 5 associated sites.'')
       (filter (\<lambda>e. length (associated_sites (snd e)) > 5) check_sets)"

fun call_warnings :: "'w method_call \<Rightarrow> string list" where
  "call_warnings (Check_associated_count check_sets) = count_warnings check_sets"
| "call_warnings c = []"

text \<open>
  \<open>appends_only f\<close>: the step \<open>f\<close> never reads the two lists. What it appends to them, and
  what it does to the world, is what it appends and does when it starts from an object
  with empty lists in the same world. \<open>appends_only_claimed\<close> is the same for a step of
  \<open>check_exclusivity\<close>, whose state also holds the claimed sites.
\<close>

definition appends_only :: "('w rws_check \<Rightarrow> 'w rws_check) \<Rightarrow> bool" where
  "appends_only f =
     (\<forall>self.
        error_list (f self) = error_list self @ error_list (f (init (world self)))
        \<and> warning_texts (f self) = warning_texts self @ warning_texts (f (init (world self)))
        \<and> world (f self) = world (f (init (world self))))"

definition appends_only_claimed ::
  "(string set \<times> 'w rws_check \<Rightarrow> string set \<times> 'w rws_check) \<Rightarrow> bool" where
  "appends_only_claimed g =
     (\<forall>site_list self.
        fst (g (site_list, self)) = fst (g (site_list, init (world self)))
        \<and> error_list (snd (g (site_list, self))) =
            error_list self @ error_list (snd (g (site_list, init (world self))))
        \<and> warning_texts (snd (g (site_list, self))) =
            warning_texts self @ warning_texts (snd (g (site_list, init (world self))))
        \<and> world (snd (g (site_list, self))) = world (snd (g (site_list, init (world self)))))"



text \<open>
  The sites of a Set, each with the name of the field it stands in, in the order in
  which \<open>find_non_https_urls\<close> and \<open>find_invalid_eTLD_Plus1\<close> visit them.
\<close>

definition labelled_sites :: "string \<times> string RwsSet \<Rightarrow> (string \<times> string) list" where
  "labelled_sites entry =
     (''primary'', fst entry)
     # concat (map (\<lambda>cc. (''aliased'', fst cc) # map (\<lambda>alias. (''alias'', alias)) (snd cc))
                 (ccTLDs (snd entry)))
     @ map (\<lambda>a. (''associated'', a)) (associated_sites (snd entry))
     @ map (\<lambda>s. (''service'', s)) (service_sites (snd entry))"

text \<open>
  The steps of \<open>check_exclusivity\<close>, for all Sets in one list: for every Set its primary
  (\<open>Inl\<close>), then its associated sites, its service sites and each of its alias lists
  (\<open>Inr\<close>, with the word the error uses). \<open>step_errors\<close> is what a step reports given the
  sites claimed so far, \<open>step_claim\<close> the sites claimed after it, and \<open>walk_errors\<close> the
  errors of a list of steps, one after the other.
\<close>

definition exclusivity_steps :: "check_sets \<Rightarrow> (string + string \<times> string list) list" where
  "exclusivity_steps check_sets =
     concat (map (\<lambda>entry.
                    Inl (fst entry)
                    # Inr (''associated'', associated_sites (snd entry))
                    # Inr (''service'', service_sites (snd entry))
                    # map (\<lambda>aliases. Inr (''ccTLD'', aliases)) (map snd (ccTLDs (snd entry))))
               check_sets)"

fun step_errors ::
  "(string set \<Rightarrow> string) \<Rightarrow> string set \<Rightarrow> string + string \<times> string list \<Rightarrow> string list" where
  "step_errors str_set claimed (Inl primary) =
     (if primary \<in> claimed
      then [''This primary is already registered in another related website set: '' @ primary]
      else [])"
| "step_errors str_set claimed (Inr (kind, sites)) =
     (if set sites \<inter> claimed \<noteq> {}
      then [''These '' @ kind @ '' sites are already registered in another related website set: ''
            @ str_set (set sites \<inter> claimed)]
      else [])"

fun step_claim :: "string set \<Rightarrow> string + string \<times> string list \<Rightarrow> string set" where
  "step_claim claimed (Inl primary) =
     (if primary \<in> claimed then claimed else update_str claimed primary)"
| "step_claim claimed (Inr (kind, sites)) =
     (if set sites \<inter> claimed \<noteq> {} then claimed else claimed \<union> set sites)"

fun walk_errors ::
  "(string set \<Rightarrow> string) \<Rightarrow> string set \<Rightarrow> (string + string \<times> string list) list
    \<Rightarrow> string list" where
  "walk_errors str_set claimed [] = []"
| "walk_errors str_set claimed (step # steps) =
     step_errors str_set claimed step @ walk_errors str_set (step_claim claimed step) steps"

text \<open>
  The remote checks make one request after the other. A visit is the address of a
  request with the function that turns its outcome into errors; \<open>visit_json\<close> and
  \<open>visit_get\<close> make the request and append these errors, \<open>load_all\<close> (as \<open>get_all\<close>
  above) lists the outcomes of the requests for a list of addresses, and
  \<open>outcome_errors\<close> the errors of a list of visits with their outcomes.
\<close>

definition visit_json ::
  "'w net \<Rightarrow> 'w rws_check \<Rightarrow> string \<times> (string + wk_json \<Rightarrow> string list) \<Rightarrow> 'w rws_check" where
  "visit_json net self v =
     error_list_extend (snd v (fst (open_and_load_json net (fst v) (world self))))
       (self\<lparr>world := snd (open_and_load_json net (fst v) (world self))\<rparr>)"

definition visit_get ::
  "'w net \<Rightarrow> bool \<Rightarrow> 'w rws_check \<Rightarrow> string \<times> (string + response \<Rightarrow> string list)
    \<Rightarrow> 'w rws_check" where
  "visit_get net allow_redirects self v =
     error_list_extend (snd v (fst (requests_get net (fst v) allow_redirects (world self))))
       (self\<lparr>world := snd (requests_get net (fst v) allow_redirects (world self))\<rparr>)"

fun load_all :: "'w net \<Rightarrow> 'w \<Rightarrow> string list \<Rightarrow> (string + wk_json) list" where
  "load_all net w [] = []"
| "load_all net w (u # us) =
     fst (open_and_load_json net u w) # load_all net (snd (open_and_load_json net u w)) us"

definition outcome_errors :: "(string \<times> ('o \<Rightarrow> string list)) list \<Rightarrow> 'o list \<Rightarrow> string list" where
  "outcome_errors visits outcomes =
     concat (map (\<lambda>x. snd (fst x) (snd x)) (zip visits outcomes))"

text \<open>
  What the outcome of a request means to each remote check: for the well-known file of
  a member site, for the well-known file of a primary (compared with the Set of the
  submission), for a removed primary, for the headers and for the address of a service
  site, and for its \<open>ads.txt\<close>.
\<close>

definition member_errors :: "string \<Rightarrow> string \<Rightarrow> string + wk_json \<Rightarrow> string list" where
  "member_errors primary site outcome =
     (case outcome of
        Inl inst \<Rightarrow>
          [''Experienced an error when trying to access '' @ site @ WELL_KNOWN
           @ ''; error was: '' @ inst]
      | Inr json_schema \<Rightarrow>
          (case w_primary json_schema of
             None \<Rightarrow>
               [''The listed associated site site did not have primary as a key in its ''
                @ WELL_KNOWN @ '' file: '' @ site]
           | Some p \<Rightarrow>
               if p \<noteq> primary
               then [''The listed associated site did not have '' @ primary
                     @ '' listed as its primary: '' @ site]
               else []))"

definition manifest_errors ::
  "(string list \<Rightarrow> string) \<Rightarrow> string \<times> string RwsSet \<Rightarrow> string + wk_json \<Rightarrow> string list" where
  "manifest_errors str_list entry outcome =
     (case outcome of
        Inl inst \<Rightarrow>
          [''Experienced an error when trying to access '' @ fst entry @ WELL_KNOWN
           @ ''; error was: '' @ inst]
      | Inr json_schema \<Rightarrow>
          (if w_primary json_schema \<noteq> Some (rws_primary (snd entry))
           then [''The '' @ WELL_KNOWN @ '' set's primary ('' @ str_opt (w_primary json_schema)
                 @ '') did not equal the PR set's primary ('' @ rws_primary (snd entry) @ '')'']
           else [])
          @ check_well_known_list str_list ''associatedSites''
              (associated_sites (snd entry)) (get_list (w_associatedSites json_schema))
          @ check_well_known_list str_list ''serviceSites''
              (service_sites (snd entry)) (get_list (w_serviceSites json_schema))
          @ concat (map (\<lambda>aliased_site.
                           check_well_known_list str_list (aliased_site @ '' alias list'')
                             (dict_get (ccTLDs (snd entry)) aliased_site)
                             (dict_get (get_list (w_ccTLDs json_schema)) aliased_site))
                      (union_keys (ccTLDs (snd entry)) (get_list (w_ccTLDs json_schema)))))"

definition well_known_visits ::
  "(string list \<Rightarrow> string) \<Rightarrow> string \<times> string RwsSet
    \<Rightarrow> (string \<times> (string + wk_json \<Rightarrow> string list)) list" where
  "well_known_visits str_list entry =
     (fst entry @ WELL_KNOWN, manifest_errors str_list entry)
     # map (\<lambda>site. (site @ WELL_KNOWN, member_errors (fst entry) site))
         (associated_sites (snd entry) @ service_sites (snd entry)
          @ concat (map snd (ccTLDs (snd entry))))"

definition removal_errors :: "string \<Rightarrow> string + response \<Rightarrow> string list" where
  "removal_errors primary outcome =
     (case outcome of
        Inl inst \<Rightarrow>
          [''Unexpected error when accessing '' @ primary @ WELL_KNOWN
           @ ''; Received error: '' @ inst]
      | Inr r \<Rightarrow>
          if r_status_code r \<noteq> 404
          then [''The set associated with '' @ primary @ '' was removed from the list, but ''
                @ primary @ WELL_KNOWN @ '' does not return error 404.'']
          else [])"

definition robots_tag_errors :: "string \<Rightarrow> string + response \<Rightarrow> string list" where
  "robots_tag_errors service_site outcome =
     (case outcome of
        Inl inst \<Rightarrow>
          [''Unexpected error for service site: '' @ service_site
           @ ''; Received error: '' @ inst]
      | Inr r_service \<Rightarrow>
          (case r_headers r_service ''X-Robots-Tag'' of
             None \<Rightarrow>
               [''The service site '' @ service_site
                @ '' does not have an X-Robots-Tag in its header'']
           | Some robots_tag \<Rightarrow>
               if sublist '':'' robots_tag
               then [''The service site '' @ service_site
                     @ '' contains an 'X-Robots-Tag' that does not meet the policy requirements'']
               else if \<not> sublist ''none'' robots_tag \<and> \<not> sublist ''noindex'' robots_tag
               then [''The service site '' @ service_site
                     @ '' does not have a 'noindex' or 'none' tag in its header'']
               else []))"

definition ads_txt_errors :: "string \<Rightarrow> string + response \<Rightarrow> string list" where
  "ads_txt_errors service_site outcome =
     (case outcome of
        Inl inst \<Rightarrow>
          if \<not> sublist ''Max retries exceeded with url: /ads.txt'' inst
             \<and> \<not> sublist ''Read timed out. (read timeout=10)'' inst
          then [''Unexpected error for service site: '' @ service_site @ [CHR 0x0A]
                @ ''Received error: '' @ inst]
          else []
      | Inr r \<Rightarrow>
          if r_status_code r = 200
          then [''The service site '' @ service_site
                @ '' has an ads.txt file, this violates the policies for service sites'']
          else [])"

definition redirect_errors :: "string \<Rightarrow> string + response \<Rightarrow> string list" where
  "redirect_errors service_site outcome =
     (case outcome of
        Inl inst \<Rightarrow>
          if \<not> sublist ''Max retries exceeded with url: /'' inst
             \<and> \<not> sublist ''Read timed out. (read timeout=10)'' inst
          then [''Unexpected error for service site: '' @ service_site @ [CHR 0x0A]
                @ ''Received error: '' @ inst]
          else []
      | Inr r \<Rightarrow>
          if (r_status_code r < 400 \<or> r_status_code r \<ge> 600)
             \<and> (r_url r = service_site \<or> r_url r = service_site @ ''/'')
          then [''The service site must not be an endpoint: '' @ service_site]
          else [])"

text \<open>
  A second network for examples: the world counts the requests, the service site
  \<open>https://s1.com\<close> answers without an \<open>X-Robots-Tag\<close> header, \<open>https://s2.com\<close> with the
  header \<open>noindex\<close>, \<open>https://s3.com\<close> with a header that holds a colon, and every other
  request, as every well-known file, fails.
\<close>

definition sample_robots_net :: "nat net" where
  "sample_robots_net =
     \<lparr>requests_get = (\<lambda>url allow_redirects w.
          (case map_of
             [(''https://s1.com'',
                 Inr \<lparr>r_status_code = 200, r_url = ''https://s1.com'', r_headers = Map.empty\<rparr>),
              (''https://s2.com'',
                 Inr \<lparr>r_status_code = 200, r_url = ''https://s2.com'',
                      r_headers = [''X-Robots-Tag'' \<mapsto> ''noindex'']\<rparr>),
              (''https://s3.com'',
                 Inr \<lparr>r_status_code = 200, r_url = ''https://s3.com'',
                      r_headers = [''X-Robots-Tag'' \<mapsto> ''googlebot: nofollow'']\<rparr>)]
             url of
             Some res \<Rightarrow> res
           | None \<Rightarrow> Inl ''Connection refused'',
           Suc w)),
      open_and_load_json = (\<lambda>url w. (Inl ''HTTP Error 404: Not Found'', Suc w))\<rparr>"

section \<open>Properties\<close>

subsection \<open>load_sets\<close>

lemma load_sets_loop_snoc:
  "load_sets_loop (rs @ [r]) st =
     (case load_sets_loop rs st of (cs, es) \<Rightarrow>
        if j_primary r \<in> set (map fst cs)
        then (cs, es @ [j_primary r @ '' is already a primary of another site''])
        else (cs @ [(j_primary r, RwsSet_init (j_ccTLDs r) (j_primary r) (j_associatedSites r) (j_serviceSites r))], es))"
proof (induction rs arbitrary: st)
  case Nil
  show ?case by (cases st) simp
next
  case (Cons x xs)
  show ?case by (cases st) (simp add: Cons.IH)
qed

lemma load_sets_loop_keys:
  "set (map fst (fst (load_sets_loop rs (cs, es)))) = set (map fst cs) \<union> j_primary ` set rs"
  by (induction rs arbitrary: cs es) auto

lemma load_sets_loop_distinct:
  "distinct (map fst cs) \<Longrightarrow> distinct (map fst (fst (load_sets_loop rs (cs, es))))"
  by (induction rs arbitrary: cs es) auto

lemma load_sets_loop_map_of:
  "distinct (map fst cs) \<Longrightarrow> map_of (fst (load_sets_loop rs (cs, es))) p =
     (case map_of cs p of Some v \<Rightarrow> Some v
      | None \<Rightarrow> map_option (\<lambda>r. RwsSet_init (j_ccTLDs r) (j_primary r) (j_associatedSites r) (j_serviceSites r)) (find (\<lambda>r. j_primary r = p) rs))"
proof (induction rs arbitrary: cs es)
  case Nil
  then show ?case by (simp split: option.splits)
next
  case (Cons r rs)
  show ?case
  proof (cases "j_primary r \<in> set (map fst cs)")
    case True
    then have "map_of cs (j_primary r) \<noteq> None"
      by (metis map_of_eq_None_iff set_map)
    with True Cons show ?thesis by (auto split: option.splits)
  next
    case False
    then have "map_of cs (j_primary r) = None"
      by (metis map_of_eq_None_iff set_map)
    with False Cons.prems Cons.IH[of "cs @ [(j_primary r, RwsSet_init (j_ccTLDs r) (j_primary r) (j_associatedSites r) (j_serviceSites r))]" es]
    show ?thesis by (auto split: option.splits simp: map_add_def)
  qed
qed

lemma load_sets_loop_errors:
  "snd (load_sets_loop rs ([], [])) =
     map (\<lambda>i. j_primary (rs ! i) @ '' is already a primary of another site'')
       (filter (\<lambda>i. j_primary (rs ! i) \<in> j_primary ` set (take i rs)) [0..<length rs])"
proof (induction rs rule: rev_induct)
  case Nil
  show ?case by simp
next
  case (snoc r rs)
  let ?msg = "\<lambda>p. p @ '' is already a primary of another site''"
  let ?late = "\<lambda>xs i. j_primary (xs ! i) \<in> j_primary ` set (take i xs)"
  have keys: "set (map fst (fst (load_sets_loop rs ([], [])))) = j_primary ` set rs"
    using load_sets_loop_keys[of rs "[]" "[]"] by simp
  have lhs: "snd (load_sets_loop (rs @ [r]) ([], [])) =
      snd (load_sets_loop rs ([], [])) @ (if j_primary r \<in> j_primary ` set rs then [?msg (j_primary r)] else [])"
    using keys by (cases "load_sets_loop rs ([], [])") (simp add: load_sets_loop_snoc del: set_map)
  have f: "filter (?late (rs @ [r])) [0..<length rs] = filter (?late rs) [0..<length rs]"
    by (rule filter_cong) (auto simp: nth_append)
  have m: "map (\<lambda>i. ?msg (j_primary ((rs @ [r]) ! i))) (filter (?late rs) [0..<length rs])
         = map (\<lambda>i. ?msg (j_primary (rs ! i))) (filter (?late rs) [0..<length rs])"
    by (rule map_cong) (auto simp: nth_append)
  have up: "[0..<length (rs @ [r])] = [0..<length rs] @ [length rs]" by simp
  have rhs: "map (\<lambda>i. ?msg (j_primary ((rs @ [r]) ! i))) (filter (?late (rs @ [r])) [0..<length (rs @ [r])])
     = map (\<lambda>i. ?msg (j_primary (rs ! i))) (filter (?late rs) [0..<length rs])
       @ (if j_primary r \<in> j_primary ` set rs then [?msg (j_primary r)] else [])"
    unfolding up filter_append map_append f m by simp
  show ?case unfolding lhs rhs snoc.IH ..
qed


lemma load_sets_loop_errors_snoc:
  "snd (load_sets_loop (rs @ [r]) ([], [])) =
      snd (load_sets_loop rs ([], []))
      @ (if j_primary r \<in> j_primary ` set rs
         then [j_primary r @ '' is already a primary of another site''] else [])"
proof -
  have keys: "set (map fst (fst (load_sets_loop rs ([], [])))) = j_primary ` set rs"
    using load_sets_loop_keys[of rs "[]" "[]"] by simp
  then show ?thesis
    by (cases "load_sets_loop rs ([], [])") (simp add: load_sets_loop_snoc del: set_map)
qed

lemma load_sets_loop_error_count:
  "count_list (snd (load_sets_loop rs ([], []))) (p @ '' is already a primary of another site'')
     = count_list (map j_primary rs) p - 1"
proof (induction rs rule: rev_induct)
  case Nil
  show ?case by simp
next
  case (snoc r rs)
  show ?case
  proof (cases "j_primary r = p")
    case True
    show ?thesis
    proof (cases "p \<in> j_primary ` set rs")
      case True
      then have "count_list (map j_primary rs) p > 0"
        by (metis count_list_0_iff gr0I set_map)
      with True \<open>j_primary r = p\<close> snoc.IH show ?thesis
        by (simp add: load_sets_loop_errors_snoc)
    next
      case False
      then have "count_list (map j_primary rs) p = 0"
        by (metis count_list_0_iff set_map)
      with False \<open>j_primary r = p\<close> snoc.IH show ?thesis
        by (simp add: load_sets_loop_errors_snoc)
    qed
  next
    case False
    with snoc.IH show ?thesis
      by (simp add: load_sets_loop_errors_snoc)
  qed
qed

text \<open>
  Claim C4. For every document, the dictionary \<open>load_sets\<close> returns has distinct keys,
  the primaries of the document, and holds under each primary the Set built from the
  first record with that primary. A record whose primary occurred earlier adds nothing
  to the dictionary and appends exactly one error
  \<open><primary> is already a primary of another site\<close>; so the appended errors are those
  of the later occurrences, in order, and a primary that occurs \<open>n\<close> times has \<open>n - 1\<close> of
  them (one when it is listed twice). Nothing else of the object changes.
\<close>

theorem load_sets_unique_primaries:
  "distinct (map fst (fst (load_sets rws_sites self)))
   \<and> set (map fst (fst (load_sets rws_sites self))) = j_primary ` set rws_sites
   \<and> map_of (fst (load_sets rws_sites self)) p =
       map_option
         (\<lambda>r. RwsSet_init (j_ccTLDs r) (j_primary r) (j_associatedSites r) (j_serviceSites r))
         (find (\<lambda>r. j_primary r = p) rws_sites)
   \<and> load_sets (rws_sites @ [r]) self =
       (if j_primary r \<in> j_primary ` set rws_sites
        then (fst (load_sets rws_sites self),
              error_list_append (j_primary r @ '' is already a primary of another site'')
                (snd (load_sets rws_sites self)))
        else (fst (load_sets rws_sites self)
                @ [(j_primary r,
                    RwsSet_init (j_ccTLDs r) (j_primary r) (j_associatedSites r) (j_serviceSites r))],
              snd (load_sets rws_sites self)))
   \<and> error_list (snd (load_sets rws_sites self)) =
       error_list self
       @ map (\<lambda>i. j_primary (rws_sites ! i) @ '' is already a primary of another site'')
           (filter (\<lambda>i. j_primary (rws_sites ! i) \<in> j_primary ` set (take i rws_sites))
              [0..<length rws_sites])
   \<and> count_list (drop (length (error_list self)) (error_list (snd (load_sets rws_sites self))))
         (p @ '' is already a primary of another site'')
       = count_list (map j_primary rws_sites) p - 1
   \<and> warning_texts (snd (load_sets rws_sites self)) = warning_texts self
   \<and> world (snd (load_sets rws_sites self)) = world self"
proof -
  obtain cs es where l: "load_sets_loop rws_sites ([], []) = (cs, es)"
    by (cases "load_sets_loop rws_sites ([], [])")
  have keys: "set (map fst cs) = j_primary ` set rws_sites"
    using load_sets_loop_keys[of rws_sites "[]" "[]"] l by simp
  have 1: "distinct (map fst cs)"
    using load_sets_loop_distinct[of "[]" rws_sites "[]"] l by simp
  have 3: "map_of cs p =
       map_option
         (\<lambda>r. RwsSet_init (j_ccTLDs r) (j_primary r) (j_associatedSites r) (j_serviceSites r))
         (find (\<lambda>r. j_primary r = p) rws_sites)"
    using load_sets_loop_map_of[of "[]" rws_sites "[]" p] l by simp
  have 4: "load_sets (rws_sites @ [r]) self =
       (if j_primary r \<in> j_primary ` set rws_sites
        then (fst (load_sets rws_sites self),
              error_list_append (j_primary r @ '' is already a primary of another site'')
                (snd (load_sets rws_sites self)))
        else (fst (load_sets rws_sites self)
                @ [(j_primary r,
                    RwsSet_init (j_ccTLDs r) (j_primary r) (j_associatedSites r) (j_serviceSites r))],
              snd (load_sets rws_sites self)))"
    using keys l
    by (simp add: load_sets_def load_sets_loop_snoc error_list_append_def del: set_map)
  have 5: "es = map (\<lambda>i. j_primary (rws_sites ! i) @ '' is already a primary of another site'')
           (filter (\<lambda>i. j_primary (rws_sites ! i) \<in> j_primary ` set (take i rws_sites))
              [0..<length rws_sites])"
    using load_sets_loop_errors[of rws_sites] l by simp
  have 6: "count_list es (p @ '' is already a primary of another site'')
       = count_list (map j_primary rws_sites) p - 1"
    using load_sets_loop_error_count[of rws_sites p] l by simp
  show ?thesis
    using 1 keys 3 4 5 6 l by (simp add: load_sets_def del: set_map)
qed

text \<open>A document that lists a primary twice.\<close>

theorem load_sets_unique_primaries_witness:
  "load_sets
     [\<lparr>j_primary = ''https://p.com'', j_ccTLDs = None, j_associatedSites = Some [''https://a.com''], j_serviceSites = None, j_rationaleBySite = None\<rparr>,
      \<lparr>j_primary = ''https://p.com'', j_ccTLDs = None, j_associatedSites = Some [''https://b.com''], j_serviceSites = None, j_rationaleBySite = None\<rparr>]
     (init ()) =
   ([(''https://p.com'',
     \<lparr>ccTLDs = [], rws_primary = ''https://p.com'', associated_sites = [''https://a.com''],
      service_sites = []\<rparr>)],
    \<lparr>error_list = [''https://p.com is already a primary of another site''], warning_texts = [], world = ()\<rparr>)"
  using load_sets_unique_primaries[of
      "[\<lparr>j_primary = ''https://p.com'', j_ccTLDs = None, j_associatedSites = Some [''https://a.com''],
          j_serviceSites = None, j_rationaleBySite = None\<rparr>]"
      "init ()" "''https://p.com''"
      "\<lparr>j_primary = ''https://p.com'', j_ccTLDs = None, j_associatedSites = Some [''https://b.com''],
         j_serviceSites = None, j_rationaleBySite = None\<rparr>"]
  by (simp add: load_sets_def init_def RwsSet_init_def error_list_append_def)

subsection \<open>has_all_rationales\<close>

lemma report_each_eq:
  "report_each ok msg xs self =
     self\<lparr>error_list := error_list self @ map msg (filter (\<lambda>x. \<not> ok x) xs)\<rparr>"
  by (induction xs arbitrary: self) (simp_all add: error_list_append_def)

lemma has_all_rationales_record_eq:
  "has_all_rationales_record check_sets r self =
     error_list_extend
       (if j_primary r \<in> set (map fst check_sets) then rationale_errors r else []) self"
  by (cases "j_rationaleBySite r")
     (simp_all add: has_all_rationales_record_def rationale_errors_def report_each_eq
        error_list_extend_def error_list_append_def Let_def del: set_map)

lemma error_list_extend_foldl:
  "foldl (\<lambda>s x. error_list_extend (f x) s) self xs = error_list_extend (concat (map f xs)) self"
  by (induction xs arbitrary: self) (simp_all add: error_list_extend_def)

lemma has_all_rationales_eq:
  "has_all_rationales rws_sites check_sets self =
     error_list_extend
       (concat (map (\<lambda>r. if j_primary r \<in> set (map fst check_sets) then rationale_errors r else [])
          rws_sites)) self"
  unfolding has_all_rationales_def has_all_rationales_record_eq
  by (rule error_list_extend_foldl)

lemma load_sets_loop_first_records:
  "fst (load_sets_loop rs (cs, es)) =
     cs @ map (\<lambda>r. (j_primary r,
                   RwsSet_init (j_ccTLDs r) (j_primary r) (j_associatedSites r) (j_serviceSites r)))
            (first_records_from (set (map fst cs)) rs)"
  by (induction rs arbitrary: cs es) simp_all

text \<open>
  Claim C2. A record without associated and service sites needs no \<open>rationaleBySite\<close>,
  the claim says. The test \<open>sites != None\<close> that guards the error holds for every list,
  the empty one too, so the record below, whose combined list is empty and which has no
  \<open>rationaleBySite\<close>, gets the error all the same.
\<close>

theorem has_all_rationales_no_sites_no_mapping:
  "has_all_rationales
     [\<lparr>j_primary = ''https://p.com'', j_ccTLDs = None, j_associatedSites = None,
       j_serviceSites = None, j_rationaleBySite = None\<rparr>]
     [(''https://p.com'', RwsSet_init None ''https://p.com'' None None)]
     (init ())
   = \<lparr>error_list = [''A rationaleBySite field is required for this set, but none is provided. ''],
      warning_texts = [], world = ()\<rparr>"
  by (simp add: has_all_rationales_def has_all_rationales_record_def init_def get_list_def
        error_list_append_def)

text \<open>
  Claim C3, as stated, fails: the second record below repeats the primary, and
  \<open>has_all_rationales\<close>, which walks the raw records and skips only those whose primary
  is not a key of the dictionary, reports its associated site. On the first records
  alone it would report nothing.
\<close>

theorem rationale_check_reads_duplicates_counterexample:
  "error_list
     (has_all_rationales
        [\<lparr>j_primary = ''https://p.com'', j_ccTLDs = None, j_associatedSites = None,
          j_serviceSites = None, j_rationaleBySite = Some []\<rparr>,
         \<lparr>j_primary = ''https://p.com'', j_ccTLDs = None, j_associatedSites = Some [''https://a.com''],
          j_serviceSites = None, j_rationaleBySite = Some []\<rparr>]
        (fst (load_sets
           [\<lparr>j_primary = ''https://p.com'', j_ccTLDs = None, j_associatedSites = None,
             j_serviceSites = None, j_rationaleBySite = Some []\<rparr>,
            \<lparr>j_primary = ''https://p.com'', j_ccTLDs = None, j_associatedSites = Some [''https://a.com''],
             j_serviceSites = None, j_rationaleBySite = Some []\<rparr>] (init ())))
        (init ()))
     = [''There is no provided rationale for https://a.com'']
   \<and> error_list
     (has_all_rationales
        (first_records
          [\<lparr>j_primary = ''https://p.com'', j_ccTLDs = None, j_associatedSites = None,
            j_serviceSites = None, j_rationaleBySite = Some []\<rparr>,
           \<lparr>j_primary = ''https://p.com'', j_ccTLDs = None, j_associatedSites = Some [''https://a.com''],
            j_serviceSites = None, j_rationaleBySite = Some []\<rparr>])
        (fst (load_sets
           [\<lparr>j_primary = ''https://p.com'', j_ccTLDs = None, j_associatedSites = None,
             j_serviceSites = None, j_rationaleBySite = Some []\<rparr>,
            \<lparr>j_primary = ''https://p.com'', j_ccTLDs = None, j_associatedSites = Some [''https://a.com''],
             j_serviceSites = None, j_rationaleBySite = Some []\<rparr>] (init ())))
        (init ()))
     = []"
  by (simp add: has_all_rationales_def has_all_rationales_record_def init_def get_list_def
        error_list_append_def load_sets_def first_records_def RwsSet_init_def)

text \<open>
  Claim C3, amended. The dictionary \<open>load_sets\<close> returns is built from the first record
  of every primary alone, so the checks that read the dictionary never see a later
  duplicate. \<open>has_all_rationales\<close> reads the raw records: given the dictionary loaded
  from the same document it skips none of them, and examines every record, later
  duplicates included, as it would if the record stood alone with its own Set.
\<close>

theorem duplicates_dropped_from_map_only:
  "fst (load_sets rws_sites self) =
     map (\<lambda>r. (j_primary r,
               RwsSet_init (j_ccTLDs r) (j_primary r) (j_associatedSites r) (j_serviceSites r)))
       (first_records rws_sites)
   \<and> has_all_rationales rws_sites (fst (load_sets rws_sites self)) self' =
       foldl
         (\<lambda>s r. has_all_rationales_record
                  [(j_primary r,
                    RwsSet_init (j_ccTLDs r) (j_primary r) (j_associatedSites r)
                      (j_serviceSites r))] r s)
         self' rws_sites"
proof -
  obtain cs es where l: "load_sets_loop rws_sites ([], []) = (cs, es)"
    by (cases "load_sets_loop rws_sites ([], [])")
  have keys: "set (map fst cs) = j_primary ` set rws_sites"
    using load_sets_loop_keys[of rws_sites "[]" "[]"] l by simp
  have a: "cs = map (\<lambda>r. (j_primary r,
               RwsSet_init (j_ccTLDs r) (j_primary r) (j_associatedSites r) (j_serviceSites r)))
       (first_records rws_sites)"
    using load_sets_loop_first_records[of rws_sites "[]" "[]"] l by (simp add: first_records_def)
  have "map (\<lambda>r. if j_primary r \<in> set (map fst cs) then rationale_errors r else []) rws_sites
        = map rationale_errors rws_sites"
    by (rule map_cong) (auto simp: keys simp del: set_map)
  then have b: "has_all_rationales rws_sites cs self' =
       error_list_extend (concat (map rationale_errors rws_sites)) self'"
    by (simp only: has_all_rationales_eq)
  have c: "foldl
         (\<lambda>s r. has_all_rationales_record
                  [(j_primary r,
                    RwsSet_init (j_ccTLDs r) (j_primary r) (j_associatedSites r)
                      (j_serviceSites r))] r s)
         self' rws_sites = error_list_extend (concat (map rationale_errors rws_sites)) self'"
    unfolding has_all_rationales_record_eq by (simp add: error_list_extend_foldl)
  have "fst (load_sets rws_sites self) = cs" using l by (simp add: load_sets_def)
  with a b c show ?thesis by simp
qed

text \<open>The document of the counterexample: the second record is read, and reported.\<close>

theorem duplicates_dropped_from_map_only_witness:
  "fst (load_sets
          [\<lparr>j_primary = ''https://p.com'', j_ccTLDs = None, j_associatedSites = None,
            j_serviceSites = None, j_rationaleBySite = Some []\<rparr>,
           \<lparr>j_primary = ''https://p.com'', j_ccTLDs = None, j_associatedSites = Some [''https://a.com''],
            j_serviceSites = None, j_rationaleBySite = Some []\<rparr>] (init ()))
     = [(''https://p.com'',
        \<lparr>ccTLDs = [], rws_primary = ''https://p.com'', associated_sites = [],
         service_sites = []\<rparr>)]
   \<and> has_all_rationales
        [\<lparr>j_primary = ''https://p.com'', j_ccTLDs = None, j_associatedSites = None,
          j_serviceSites = None, j_rationaleBySite = Some []\<rparr>,
         \<lparr>j_primary = ''https://p.com'', j_ccTLDs = None, j_associatedSites = Some [''https://a.com''],
          j_serviceSites = None, j_rationaleBySite = Some []\<rparr>]
        (fst (load_sets
          [\<lparr>j_primary = ''https://p.com'', j_ccTLDs = None, j_associatedSites = None,
            j_serviceSites = None, j_rationaleBySite = Some []\<rparr>,
           \<lparr>j_primary = ''https://p.com'', j_ccTLDs = None, j_associatedSites = Some [''https://a.com''],
            j_serviceSites = None, j_rationaleBySite = Some []\<rparr>] (init ())))
        (init ())
     = \<lparr>error_list = [''There is no provided rationale for https://a.com''], warning_texts = [],
        world = ()\<rparr>"
  using duplicates_dropped_from_map_only[of
      "[\<lparr>j_primary = ''https://p.com'', j_ccTLDs = None, j_associatedSites = None,
          j_serviceSites = None, j_rationaleBySite = Some []\<rparr>,
        \<lparr>j_primary = ''https://p.com'', j_ccTLDs = None, j_associatedSites = Some [''https://a.com''],
          j_serviceSites = None, j_rationaleBySite = Some []\<rparr>]"
      "init ()" "init ()"]
  by (simp add: first_records_def RwsSet_init_def has_all_rationales_def
        has_all_rationales_record_def get_list_def init_def error_list_append_def load_sets_def)

subsection \<open>check_exclusivity\<close>









text \<open>
  A primary is added to the claimed sites character by character, so an associated
  site equal to the primary of an earlier Set is not found there.
\<close>

lemma check_exclusivity_primary_first_example:
  "error_list (check_exclusivity str_set_sorted
      [(''https://x.com'',
        \<lparr>ccTLDs = [], rws_primary = ''https://x.com'', associated_sites = [],
         service_sites = []\<rparr>),
       (''https://a.com'',
        \<lparr>ccTLDs = [], rws_primary = ''https://a.com'', associated_sites = [''https://x.com''],
         service_sites = []\<rparr>)]
      (init ())) = []"
  by (simp add: check_exclusivity_def check_exclusivity_set_def check_exclusivity_aliases_def
        update_str_def init_def error_list_append_def)

subsection \<open>is_eTLD_Plus1\<close>

text \<open>
  Claim C5. \<open>is_eTLD_Plus1\<close> removes one leading \<open>https://\<close> when there is one, and is
  true exactly when the rest is its own registrable domain (\<open>get_sld\<close>, strict) and is
  not its own suffix (\<open>get_tld\<close>, strict). So it is false on \<open>com\<close> for a suffix list
  that knows \<open>com\<close>, and true on \<open>example.com\<close> when the list gives \<open>example.com\<close> as its
  registrable domain and \<open>com\<close> as its suffix.
\<close>

theorem is_eTLD_Plus1_iff:
  "is_eTLD_Plus1 etlds (''https://'' @ d) =
     (get_sld etlds d = Some d \<and> get_tld etlds d \<noteq> Some d)
   \<and> (\<not> prefix ''https://'' site \<longrightarrow>
        is_eTLD_Plus1 etlds site =
          (get_sld etlds site = Some site \<and> get_tld etlds site \<noteq> Some site))
   \<and> (get_tld etlds ''com'' = Some ''com'' \<longrightarrow> \<not> is_eTLD_Plus1 etlds ''com'')
   \<and> (get_sld etlds ''example.com'' = Some ''example.com''
        \<and> get_tld etlds ''example.com'' = Some ''com''
        \<longrightarrow> is_eTLD_Plus1 etlds ''example.com'')"
proof -
  have a: "removeprefix ''https://'' (''https://'' @ d) = d"
    by (simp add: removeprefix_def)
  have b: "\<not> prefix ''https://'' site \<Longrightarrow> removeprefix ''https://'' site = site"
    by (simp add: removeprefix_def)
  have c: "removeprefix ''https://'' ''com'' = ''com''"
    by (simp add: removeprefix_def)
  have d: "removeprefix ''https://'' ''example.com'' = ''example.com''"
    by (simp add: removeprefix_def)
  show ?thesis
    unfolding is_eTLD_Plus1_def Let_def a c d using b by simp
qed

theorem is_eTLD_Plus1_iff_witness:
  "is_eTLD_Plus1
     \<lparr>get_sld = map_of [(''com'', ''com''), (''example.com'', ''example.com'')],
      get_tld = map_of [(''com'', ''com''), (''example.com'', ''com'')]\<rparr>
     ''https://example.com''
   \<and> \<not> prefix ''https://'' ''example.com''
   \<and> is_eTLD_Plus1
     \<lparr>get_sld = map_of [(''com'', ''com''), (''example.com'', ''example.com'')],
      get_tld = map_of [(''com'', ''com''), (''example.com'', ''com'')]\<rparr>
     ''example.com''
   \<and> \<not> is_eTLD_Plus1
     \<lparr>get_sld = map_of [(''com'', ''com''), (''example.com'', ''example.com'')],
      get_tld = map_of [(''com'', ''com''), (''example.com'', ''com'')]\<rparr>
     ''com''"
  using is_eTLD_Plus1_iff[of
     "\<lparr>get_sld = map_of [(''com'', ''com''), (''example.com'', ''example.com'')],
      get_tld = map_of [(''com'', ''com''), (''example.com'', ''com'')]\<rparr>"
     "''example.com''" "''example.com''"]
  by simp

subsection \<open>check_well_known_list\<close>

text \<open>
  Claim C6. \<open>check_well_known_list\<close> returns no diagnostic for two equal lists. For two
  different lists it returns exactly one, made of the field name, the two lists and the
  difference as the runtime prints them; the difference is the sorted list, without
  repetition, of the elements that are in one list and not in the other, and so is
  empty when the lists have the same elements (a permutation).
\<close>

theorem check_well_known_list_diagnostic:
  "check_well_known_list str_list field list1 list1 = []
   \<and> (list1 \<noteq> list2 \<longrightarrow>
        check_well_known_list str_list field list1 list2 =
          [''Encountered an inequality between the PR submission and the /.well-known/related-website-set.json file:''
           @ [CHR 0x0A, CHR 0x09] @ field @ '' was '' @ str_list list1 @ '' in the PR, and ''
           @ str_list list2 @ '' in the well-known.'' @ [CHR 0x0A, CHR 0x09] @ ''Diff was: ''
           @ str_list (sorted_list_of_set ((set list1 - set list2) \<union> (set list2 - set list1)))
           @ ''.''])
   \<and> sorted (sorted_list_of_set ((set list1 - set list2) \<union> (set list2 - set list1)))
   \<and> distinct (sorted_list_of_set ((set list1 - set list2) \<union> (set list2 - set list1)))
   \<and> set (sorted_list_of_set ((set list1 - set list2) \<union> (set list2 - set list1)))
       = (set list1 - set list2) \<union> (set list2 - set list1)
   \<and> (set list1 = set list2 \<longrightarrow>
        sorted_list_of_set ((set list1 - set list2) \<union> (set list2 - set list1)) = [])"
  by (simp add: check_well_known_list_def WELL_KNOWN_def)

theorem check_well_known_list_diagnostic_witness:
  "[''b'', ''a''] \<noteq> [''a'', ''c'']
   \<and> check_well_known_list str_list_quoted ''associatedSites'' [''b'', ''a''] [''a'', ''c''] =
     [''Encountered an inequality between the PR submission and the /.well-known/related-website-set.json file:''
      @ [CHR 0x0A, CHR 0x09] @ ''associatedSites was ['b', 'a'] in the PR, and ['a', 'c'] in the well-known.''
      @ [CHR 0x0A, CHR 0x09] @ ''Diff was: ['b', 'c'].'']
   \<and> set [''b'', ''a''] = set [''a'', ''b'']
   \<and> check_well_known_list str_list_quoted ''serviceSites'' [''b'', ''a''] [''a'', ''b''] =
     [''Encountered an inequality between the PR submission and the /.well-known/related-website-set.json file:''
      @ [CHR 0x0A, CHR 0x09] @ ''serviceSites was ['b', 'a'] in the PR, and ['a', 'b'] in the well-known.''
      @ [CHR 0x0A, CHR 0x09] @ ''Diff was: [].'']"
proof -
  have d1: "sorted_list_of_set ((set [''b'', ''a''] - set [''a'', ''c'']) \<union> (set [''a'', ''c''] - set [''b'', ''a'']))
    = [''b'', ''c'']"
    by code_simp
  have s: "set [''b'', ''a''] = set [''a'', ''b'']" by auto
  have n1: "[''b'', ''a''] \<noteq> [''a'', ''c'']" and n2: "[''b'', ''a''] \<noteq> [''a'', ''b'']" by simp_all
  show ?thesis
    using check_well_known_list_diagnostic[of str_list_quoted "''associatedSites''" "[''b'', ''a'']" "[''a'', ''c'']"]
      check_well_known_list_diagnostic[of str_list_quoted "''serviceSites''" "[''b'', ''a'']" "[''a'', ''b'']"]
      n1 n2 s d1
    by (simp add: str_list_quoted_def)
qed

subsection \<open>find_invalid_alias_eSLDs\<close>

lemma split_on_not_Nil: "split_on sep s \<noteq> []"
  by (induction s) (auto split: list.splits)

lemma split_on_no_sep: "sep \<notin> set s \<Longrightarrow> split_on sep s = [s]"
  by (induction s) auto

lemma split_on_sep_tl: "sep \<in> set s \<Longrightarrow> tl (split_on sep s) \<noteq> []"
  by (induction s) (auto simp: split_on_not_Nil split: list.splits)

lemma hd_split_on: "hd (split_on CHR ''.'' s) = first_segment s"
  by (induction s) (auto simp: first_segment_def split_on_not_Nil split: list.splits)

lemma last_segment_Cons:
  "last_segment (c # cs) = (if CHR ''.'' \<in> set cs then last_segment cs
                            else if c = CHR ''.'' then cs else c # cs)"
proof (cases "CHR ''.'' \<in> set cs")
  case True
  then have "\<not> (\<forall>x\<in>set (rev cs). x \<noteq> CHR ''.'')" by simp
  then show ?thesis using True
    by (auto simp: last_segment_def takeWhile_append)
next
  case False
  then have a: "\<forall>x\<in>set (rev cs). x \<noteq> CHR ''.''" by auto
  then have "takeWhile (\<lambda>c. c \<noteq> CHR ''.'') (rev cs @ [c])
             = rev cs @ takeWhile (\<lambda>c. c \<noteq> CHR ''.'') [c]"
    by (simp add: takeWhile_append)
  then show ?thesis using False by (simp add: last_segment_def)
qed

lemma last_split_on: "last (split_on CHR ''.'' s) = last_segment s"
proof (induction s)
  case Nil
  show ?case by (simp add: last_segment_def)
next
  case (Cons c cs)
  show ?case
  proof (cases "CHR ''.'' \<in> set cs")
    case True
    from split_on_sep_tl[OF True] Cons.IH show ?thesis
      by (cases "split_on CHR ''.'' cs") (simp_all add: last_segment_Cons True)
  next
    case False
    from split_on_no_sep[OF False] Cons.IH show ?thesis
      by (simp add: last_segment_Cons False)
  qed
qed


lemma error_list_extend_Nil: "error_list_extend [] self = self"
  by (simp add: error_list_extend_def)

lemma find_invalid_alias_eSLDs_variant_eq:
  "find_invalid_alias_eSLDs_variant (acceptable_tlds icanns aliased_site) aliased_site
       (first_segment aliased_site) s
       (site, first_segment site, last_segment site)
     = error_list_extend (alias_errors icanns aliased_site site) s"
  by (simp add: find_invalid_alias_eSLDs_variant_def alias_errors_def
        error_list_extend_def error_list_append_def)

lemma find_invalid_alias_eSLDs_ccTLD_eq:
  "find_invalid_alias_eSLDs_ccTLD icanns primary curr_set self entry =
     error_list_extend (ccTLD_errors icanns primary curr_set entry) self"
proof -
  obtain aliased_site aliases where e: "entry = (aliased_site, aliases)" by (cases entry)
  have loop: "foldl (find_invalid_alias_eSLDs_variant (acceptable_tlds icanns aliased_site)
                 aliased_site (first_segment aliased_site)) s
            (map (\<lambda>site. (site, first_segment site, last_segment site)) aliases)
        = error_list_extend (concat (map (alias_errors icanns aliased_site) aliases)) s" for s :: "'a rws_check"
    unfolding foldl_map find_invalid_alias_eSLDs_variant_eq
    by (rule error_list_extend_foldl)
  have "find_invalid_alias_eSLDs_ccTLD icanns primary curr_set self (aliased_site, aliases)
      = error_list_extend (concat (map (alias_errors icanns aliased_site) aliases))
          (if \<not> includes' curr_set aliased_site False
           then error_list_append
                  (''The aliased site '' @ aliased_site
                   @ '' contained within the ccTLDs must be a ''
                   @ ''primary, associated site, or service site ''
                   @ ''within the firsty pary set for '' @ primary) self
           else self)"
    unfolding find_invalid_alias_eSLDs_ccTLD_def Let_def prod.case hd_split_on last_split_on
      acceptable_tlds_def[symmetric]
    by (rule loop)
  then show ?thesis
    unfolding e
    by (simp add: ccTLD_errors_def includes'_def error_list_extend_def error_list_append_def)
qed

lemma find_invalid_alias_eSLDs_set_eq:
  "find_invalid_alias_eSLDs_set icanns s e =
     error_list_extend (concat (map (ccTLD_errors icanns (fst e) (snd e)) (ccTLDs (snd e)))) s"
proof -
  have h: "find_invalid_alias_eSLDs_ccTLD icanns (fst e) (snd e)
          = (\<lambda>s x. error_list_extend (ccTLD_errors icanns (fst e) (snd e) x) s)"
    by (intro ext) (rule find_invalid_alias_eSLDs_ccTLD_eq)
  show ?thesis
    unfolding find_invalid_alias_eSLDs_set_def split_def h
    by (rule error_list_extend_foldl)
qed

text \<open>
  Claim C7. For a ccTLD entry \<open>(aliased_site, aliases)\<close> of a Set,
  \<open>find_invalid_alias_eSLDs\<close> appends the errors \<open>ccTLD_errors\<close> lists: one when the
  aliased site is neither the primary nor an associated nor a service site of the Set,
  and for every alias one when its first segment differs from that of the aliased site
  and one when its last segment is not acceptable; acceptable are the country codes,
  and \<open>com\<close> as well when the last segment of the aliased site is a country code. The
  whole check appends these errors for every entry of every Set, in order. The segments
  are those \<open>split(".")\<close> gives first and last.
\<close>

theorem find_invalid_alias_eSLDs_errors:
  "find_invalid_alias_eSLDs_ccTLD icanns primary curr_set self entry =
     error_list_extend (ccTLD_errors icanns primary curr_set entry) self
   \<and> find_invalid_alias_eSLDs icanns check_sets self =
     error_list_extend
       (concat (map (\<lambda>e. concat (map (ccTLD_errors icanns (fst e) (snd e)) (ccTLDs (snd e))))
          check_sets))
       self
   \<and> hd (split_on CHR ''.'' site) = first_segment site
   \<and> last (split_on CHR ''.'' site) = last_segment site"
proof -
  have "find_invalid_alias_eSLDs icanns check_sets self =
     error_list_extend
       (concat (map (\<lambda>e. concat (map (ccTLD_errors icanns (fst e) (snd e)) (ccTLDs (snd e))))
          check_sets))
       self"
    unfolding find_invalid_alias_eSLDs_def find_invalid_alias_eSLDs_set_eq[abs_def]
    by (rule error_list_extend_foldl)
  then show ?thesis
    by (simp add: find_invalid_alias_eSLDs_ccTLD_eq hd_split_on last_split_on)
qed

text \<open>
  With country codes \<open>de\<close> and \<open>fr\<close>: an alias ending in \<open>com\<close> is accepted for an aliased
  site ending in \<open>de\<close> and refused for one ending in \<open>net\<close>.
\<close>

theorem find_invalid_alias_eSLDs_errors_witness:
  "error_list (find_invalid_alias_eSLDs {''de'', ''fr''}
     [(''https://example.de'',
       \<lparr>ccTLDs = [(''https://example.de'', [''https://example.com'', ''https://example.fr''])],
        rws_primary = ''https://example.de'', associated_sites = [], service_sites = []\<rparr>)]
     (init ())) = []
   \<and> error_list (find_invalid_alias_eSLDs {''de'', ''fr''}
     [(''https://example.net'',
       \<lparr>ccTLDs = [(''https://example.net'', [''https://example.com'', ''https://other.fr''])],
        rws_primary = ''https://example.net'', associated_sites = [], service_sites = []\<rparr>)]
     (init ())) =
     [''The provided country code: com, in: https://example.com is not a ICANN registered country code'',
      ''The following top level domain must match: https://example.net, but is instead: https://other.fr'']"
  by (simp add: find_invalid_alias_eSLDs_errors ccTLD_errors_def alias_errors_def
        acceptable_tlds_def first_segment_def last_segment_def error_list_extend_def init_def)

subsection \<open>find_ads_txt\<close>

lemma find_ads_txt_site_eq:
  "find_ads_txt_site net self service_site =
     (let res = requests_get net (service_site @ ''/ads.txt'') True (world self) in
      error_list_extend
        (if ads_txt_finding (fst res) then [ads_txt_error service_site (fst res)] else [])
        (self\<lparr>world := snd res\<rparr>))"
  by (cases "requests_get net (service_site @ ''/ads.txt'') True (world self)";
      cases "fst (requests_get net (service_site @ ''/ads.txt'') True (world self))")
     (simp_all add: find_ads_txt_site_def ads_txt_finding_def ads_txt_error_def
        exception_retries_ads_def exception_timeout_def error_list_extend_def
        error_list_append_def)

lemma foldl_concat_sites:
  "foldl (\<lambda>s curr_set. foldl f s (g curr_set)) self xs = foldl f self (concat (map g xs))"
  by (induction xs arbitrary: self) simp_all

lemma find_ads_txt_flat:
  "find_ads_txt net check_sets self =
     foldl (find_ads_txt_site net) self (concat (map (\<lambda>e. service_sites (snd e)) check_sets))"
  by (simp add: find_ads_txt_def foldl_concat_sites comp_def)

lemma find_ads_txt_sites_errors:
  "error_list (foldl (find_ads_txt_site net) self sites) =
     error_list self
     @ map (\<lambda>x. ads_txt_error (fst x) (snd x))
         (filter (\<lambda>x. ads_txt_finding (snd x))
            (zip sites (get_all net True (world self) (map (\<lambda>s. s @ ''/ads.txt'') sites))))"
proof (induction sites arbitrary: self)
  case Nil
  show ?case by simp
next
  case (Cons site sites)
  have e: "error_list (find_ads_txt_site net self site) =
      error_list self
      @ (if ads_txt_finding (fst (requests_get net (site @ ''/ads.txt'') True (world self)))
         then [ads_txt_error site (fst (requests_get net (site @ ''/ads.txt'') True (world self)))]
         else [])"
    and w: "world (find_ads_txt_site net self site) =
      snd (requests_get net (site @ ''/ads.txt'') True (world self))"
    by (simp_all add: find_ads_txt_site_eq Let_def error_list_extend_def)
  show ?case
    unfolding foldl_Cons Cons.IH[of "find_ads_txt_site net self site"] e w
    by simp
qed

lemma find_ads_txt_sites_length:
  "length (get_all net ar w urls) = length urls"
  by (induction urls arbitrary: w) simp_all

text \<open>
  Claim C8. For a service site, \<open>find_ads_txt\<close> requests \<open><site>/ads.txt\<close> and appends
  one diagnostic exactly when \<open>ads_txt_finding\<close> holds of the outcome: status 200, or an
  exception whose text holds neither benign pattern. Any other outcome appends nothing.
  The check is the loop of that step over all service sites of all Sets in order,
  whatever the outcomes: its errors are the diagnostics of the sites whose outcome is a
  finding, and there is one outcome for every service site.
\<close>

theorem find_ads_txt_findings:
  "find_ads_txt_site net self service_site =
     error_list_extend
       (if ads_txt_finding (fst (requests_get net (service_site @ ''/ads.txt'') True (world self)))
        then [ads_txt_error service_site
                (fst (requests_get net (service_site @ ''/ads.txt'') True (world self)))]
        else [])
       (self\<lparr>world := snd (requests_get net (service_site @ ''/ads.txt'') True (world self))\<rparr>)
   \<and> find_ads_txt net check_sets self =
       foldl (find_ads_txt_site net) self
         (concat (map (\<lambda>e. service_sites (snd e)) check_sets))
   \<and> error_list (find_ads_txt net check_sets self) =
       error_list self
       @ map (\<lambda>x. ads_txt_error (fst x) (snd x))
           (filter (\<lambda>x. ads_txt_finding (snd x))
              (zip (concat (map (\<lambda>e. service_sites (snd e)) check_sets))
                 (get_all net True (world self)
                    (map (\<lambda>s. s @ ''/ads.txt'')
                       (concat (map (\<lambda>e. service_sites (snd e)) check_sets))))))
   \<and> length (get_all net True (world self)
                (map (\<lambda>s. s @ ''/ads.txt'')
                   (concat (map (\<lambda>e. service_sites (snd e)) check_sets))))
       = length (concat (map (\<lambda>e. service_sites (snd e)) check_sets))"
  using find_ads_txt_site_eq[of net self service_site]
    find_ads_txt_flat[of net check_sets self]
    find_ads_txt_sites_errors[of net self "concat (map (\<lambda>e. service_sites (snd e)) check_sets)"]
  by (simp add: Let_def find_ads_txt_sites_length)

text \<open>
  Five service sites: an unexpected exception, a status 200, a benign exception, a
  status 404 and a timeout. Two diagnostics, and all five requests are made.
\<close>

theorem find_ads_txt_findings_witness:
  "find_ads_txt sample_net
     [(''https://p.com'',
       \<lparr>ccTLDs = [], rws_primary = ''https://p.com'', associated_sites = [],
        service_sites = [''https://b.com'', ''https://a.com'']\<rparr>),
      (''https://q.com'',
       \<lparr>ccTLDs = [], rws_primary = ''https://q.com'', associated_sites = [],
        service_sites = [''https://c.com'', ''https://d.com'', ''https://e.com'']\<rparr>)]
     (init 0) =
   \<lparr>error_list =
      [''Unexpected error for service site: https://b.com'' @ [CHR 0x0A]
         @ ''Received error: certificate verify failed'',
       ''The service site https://a.com has an ads.txt file, this violates the policies for service sites''],
    warning_texts = [], world = 5\<rparr>"
  using find_ads_txt_findings[of sample_net "init 0" "''https://b.com''"
      "[(''https://p.com'',
         \<lparr>ccTLDs = [], rws_primary = ''https://p.com'', associated_sites = [],
          service_sites = [''https://b.com'', ''https://a.com'']\<rparr>),
        (''https://q.com'',
         \<lparr>ccTLDs = [], rws_primary = ''https://q.com'', associated_sites = [],
          service_sites = [''https://c.com'', ''https://d.com'', ''https://e.com'']\<rparr>)]"]
  by (simp add: find_ads_txt_site_def sample_net_def init_def
        exception_retries_ads_def exception_timeout_def error_list_append_def
        sublist_Cons_right)

subsection \<open>What a check may change\<close>

text \<open>
  Every check but \<open>check_associated_count\<close> leaves the warnings as they are and only
  appends to the errors. The property is closed under the ways the checks are put
  together: one step after another, and a loop of such steps.
\<close>

lemma errors_appended_refl: "errors_appended self self"
  by (simp add: errors_appended_def)

lemma errors_appended_trans:
  "errors_appended a b \<Longrightarrow> errors_appended b c \<Longrightarrow> errors_appended a c"
  by (auto simp: errors_appended_def)

lemma errors_appended_append: "errors_appended self (error_list_append msg self)"
  by (simp add: errors_appended_def error_list_append_def)

lemma errors_appended_extend: "errors_appended self (error_list_extend msgs self)"
  by (simp add: errors_appended_def error_list_extend_def)

lemma errors_appended_world: "errors_appended self (self\<lparr>world := w\<rparr>)"
  by (simp add: errors_appended_def)

lemma errors_appended_foldl:
  assumes "\<And>s x. errors_appended s (f s x)"
  shows "errors_appended self (foldl f self xs)"
proof (induction xs arbitrary: self)
  case Nil
  show ?case by (simp add: errors_appended_refl)
next
  case (Cons x xs)
  from assms[of self x] Cons.IH[of "f self x"] show ?case
    by (simp add: errors_appended_trans)
qed

lemma errors_appended_foldl_snd:
  assumes "\<And>st x. errors_appended (snd st) (snd (f st x))"
  shows "errors_appended (snd st) (snd (foldl f st xs))"
proof (induction xs arbitrary: st)
  case Nil
  show ?case by (simp add: errors_appended_refl)
next
  case (Cons x xs)
  from assms[of st x] Cons.IH[of "f st x"] show ?case
    by (simp add: errors_appended_trans)
qed

lemma errors_appended_report_each: "errors_appended self (report_each ok msg xs self)"
  by (simp add: report_each_eq errors_appended_def)

lemma errors_appended_load_sets: "errors_appended self (snd (load_sets rws_sites self))"
  by (simp add: load_sets_def errors_appended_def split: prod.splits)

lemma errors_appended_has_all_rationales:
  "errors_appended self (has_all_rationales rws_sites check_sets self)"
  by (simp add: has_all_rationales_eq errors_appended_extend)

lemma errors_appended_check_exclusivity_aliases:
  "errors_appended (snd st) (snd (check_exclusivity_aliases str_set st aliases))"
  by (cases st)
     (simp add: check_exclusivity_aliases_def Let_def errors_appended_append errors_appended_refl)

lemma errors_appended_check_exclusivity_set:
  "errors_appended (snd st) (snd (check_exclusivity_set str_set st entry))"
proof -
  obtain site_list self where st: "st = (site_list, self)" by (cases st)
  obtain p rws where e: "entry = (p, rws)" by (cases entry)
  define st1 where "st1 =
     (if p \<in> site_list
      then (site_list,
            error_list_append
              (''This primary is already registered in another related website''
               @ '' set: '' @ p) self)
      else (update_str site_list p, self))"
  define st2 where "st2 =
     (if set (associated_sites rws) \<inter> fst st1 \<noteq> {}
      then (fst st1,
            error_list_append
              (''These associated sites are already registered in ''
               @ ''another related website set: '' @ str_set (set (associated_sites rws) \<inter> fst st1)) (snd st1))
      else (fst st1 \<union> set (associated_sites rws), snd st1))"
  define st3 where "st3 =
     (if set (service_sites rws) \<inter> fst st2 \<noteq> {}
      then (fst st2,
            error_list_append
              (''These service sites are already registered in another''
               @ '' related website set: '' @ str_set (set (service_sites rws) \<inter> fst st2)) (snd st2))
      else (fst st2 \<union> set (service_sites rws), snd st2))"
  have res: "check_exclusivity_set str_set st entry
           = foldl (check_exclusivity_aliases str_set) st3 (map snd (ccTLDs rws))"
    by (simp add: st e check_exclusivity_set_def st1_def st2_def st3_def Let_def split_def)
  have 1: "errors_appended self (snd st1)"
    by (simp add: st1_def errors_appended_append errors_appended_refl)
  have 2: "errors_appended (snd st1) (snd st2)"
    by (simp add: st2_def errors_appended_append errors_appended_refl)
  have 3: "errors_appended (snd st2) (snd st3)"
    by (simp add: st3_def errors_appended_append errors_appended_refl)
  have 4: "errors_appended (snd st3)
       (snd (foldl (check_exclusivity_aliases str_set) st3 (map snd (ccTLDs rws))))"
    by (rule errors_appended_foldl_snd) (rule errors_appended_check_exclusivity_aliases)
  from 1 2 have "errors_appended self (snd st2)" by (rule errors_appended_trans)
  from this 3 have "errors_appended self (snd st3)" by (rule errors_appended_trans)
  from this 4 have "errors_appended self
       (snd (foldl (check_exclusivity_aliases str_set) st3 (map snd (ccTLDs rws))))"
    by (rule errors_appended_trans)
  then show ?thesis unfolding res by (simp add: st)
qed

lemma errors_appended_check_exclusivity:
  "errors_appended self (check_exclusivity str_set check_sets self)"
  using errors_appended_foldl_snd[of "check_exclusivity_set str_set" "({}, self)" check_sets]
  by (simp add: check_exclusivity_def errors_appended_check_exclusivity_set)

lemma errors_appended_then_append:
  "errors_appended s s' \<Longrightarrow> errors_appended s (error_list_append msg s')"
  by (rule errors_appended_trans[OF _ errors_appended_append])

lemma errors_appended_then_extend:
  "errors_appended s s' \<Longrightarrow> errors_appended s (error_list_extend msgs s')"
  by (rule errors_appended_trans[OF _ errors_appended_extend])

lemma errors_appended_then_report_each:
  "errors_appended s s' \<Longrightarrow> errors_appended s (report_each ok msg xs s')"
  by (rule errors_appended_trans[OF _ errors_appended_report_each])

lemma errors_appended_then_foldl:
  "(\<And>s x. errors_appended s (f s x)) \<Longrightarrow> errors_appended s s'
     \<Longrightarrow> errors_appended s (foldl f s' xs)"
  by (rule errors_appended_trans[OF _ errors_appended_foldl])

lemma errors_appended_find_non_https_urls_ccTLD:
  "errors_appended s (find_non_https_urls_ccTLD s x)"
  unfolding find_non_https_urls_ccTLD_def split_def
  by (intro errors_appended_then_report_each errors_appended_refl)

lemma errors_appended_find_non_https_urls_set:
  "errors_appended s (find_non_https_urls_set s x)"
  unfolding find_non_https_urls_set_def split_def Let_def
  by (intro errors_appended_then_report_each errors_appended_then_foldl
        errors_appended_find_non_https_urls_ccTLD errors_appended_refl)

lemma errors_appended_find_non_https_urls:
  "errors_appended self (find_non_https_urls check_sets self)"
  unfolding find_non_https_urls_def
  by (rule errors_appended_foldl) (rule errors_appended_find_non_https_urls_set)

lemma errors_appended_find_invalid_eTLD_Plus1_ccTLD:
  "errors_appended s (find_invalid_eTLD_Plus1_ccTLD etlds s x)"
  unfolding find_invalid_eTLD_Plus1_ccTLD_def split_def
  by (intro errors_appended_then_report_each errors_appended_refl)

lemma errors_appended_find_invalid_eTLD_Plus1_set:
  "errors_appended s (find_invalid_eTLD_Plus1_set etlds s x)"
  unfolding find_invalid_eTLD_Plus1_set_def split_def Let_def
  by (intro errors_appended_then_report_each errors_appended_then_foldl
        errors_appended_find_invalid_eTLD_Plus1_ccTLD errors_appended_refl)

lemma errors_appended_find_invalid_eTLD_Plus1:
  "errors_appended self (find_invalid_eTLD_Plus1 etlds check_sets self)"
  unfolding find_invalid_eTLD_Plus1_def
  by (rule errors_appended_foldl) (rule errors_appended_find_invalid_eTLD_Plus1_set)

lemma errors_appended_find_invalid_alias_eSLDs:
  "errors_appended self (find_invalid_alias_eSLDs icanns check_sets self)"
  unfolding find_invalid_alias_eSLDs_def find_invalid_alias_eSLDs_set_eq[abs_def]
    error_list_extend_foldl
  by (rule errors_appended_extend)

lemma errors_appended_then_world:
  "errors_appended s s' \<Longrightarrow> errors_appended s (s'\<lparr>world := w\<rparr>)"
  by (rule errors_appended_trans[OF _ errors_appended_world])

lemma errors_appended_check_list_sites_site:
  "errors_appended s (check_list_sites_site net primary s site)"
  unfolding check_list_sites_site_def Let_def
  by (auto split: prod.splits sum.splits
        intro!: errors_appended_then_append errors_appended_world)

lemma errors_appended_check_list_sites:
  "errors_appended self (check_list_sites net primary site_list self)"
  unfolding check_list_sites_def
  by (rule errors_appended_foldl) (rule errors_appended_check_list_sites_site)

lemma errors_appended_find_invalid_well_known_set:
  "errors_appended s (find_invalid_well_known_set str_list net s entry)"
proof -
  have step: "errors_appended a (error_list_extend (g x) a)" for a :: "'a rws_check" and g :: "string \<Rightarrow> string list" and x
    by (rule errors_appended_extend)
  show ?thesis
    unfolding find_invalid_well_known_set_def Let_def split_def
    by (rule errors_appended_trans[OF _ errors_appended_check_list_sites])
       (auto split: prod.splits sum.splits
          intro!: errors_appended_then_foldl errors_appended_then_extend
            errors_appended_then_append errors_appended_world errors_appended_extend)
qed

lemma errors_appended_find_invalid_well_known:
  "errors_appended self (find_invalid_well_known str_list net check_sets self)"
  unfolding find_invalid_well_known_def
  by (rule errors_appended_foldl) (rule errors_appended_find_invalid_well_known_set)

lemma errors_appended_find_invalid_removal:
  "errors_appended self (find_invalid_removal net subtracted_sets self)"
proof -
  have "errors_appended s (find_invalid_removal_primary net s p)" for s :: "'a rws_check" and p
    unfolding find_invalid_removal_primary_def Let_def
    by (auto split: prod.splits sum.splits
          intro!: errors_appended_then_append errors_appended_world)
  then show ?thesis
    unfolding find_invalid_removal_def by (rule errors_appended_foldl)
qed

lemma errors_appended_find_robots_tag:
  "errors_appended self (find_robots_tag net check_sets self)"
proof -
  have "errors_appended s (find_robots_tag_site net s p)" for s :: "'a rws_check" and p
    unfolding find_robots_tag_site_def
    by (auto split: prod.splits sum.splits option.splits
          intro!: errors_appended_then_append errors_appended_world)
  then show ?thesis
    unfolding find_robots_tag_def
    by (intro errors_appended_foldl)
qed

lemma errors_appended_find_ads_txt:
  "errors_appended self (find_ads_txt net check_sets self)"
proof -
  have "errors_appended s (find_ads_txt_site net s p)" for s :: "'a rws_check" and p
    unfolding find_ads_txt_site_def Let_def
    by (auto split: prod.splits sum.splits
          intro!: errors_appended_then_append errors_appended_world)
  then show ?thesis
    unfolding find_ads_txt_def
    by (intro errors_appended_foldl)
qed

lemma errors_appended_check_for_service_redirect:
  "errors_appended self (check_for_service_redirect net check_sets self)"
proof -
  have "errors_appended s (check_for_service_redirect_site net s p)" for s :: "'a rws_check" and p
    unfolding check_for_service_redirect_site_def
    by (auto split: prod.splits sum.splits
          intro!: errors_appended_then_append errors_appended_world)
  then show ?thesis
    unfolding check_for_service_redirect_def
    by (intro errors_appended_foldl)
qed

subsection \<open>The warnings\<close>

lemma check_associated_count_eq:
  "check_associated_count check_sets self =
     self\<lparr>warning_texts := warning_texts self @ count_warnings check_sets\<rparr>"
  unfolding check_associated_count_def
  by (induction check_sets arbitrary: self)
     (simp_all add: check_associated_count_set_def warning_texts_append_def ASSOCIATED_LIMIT_def
        split_def count_warnings_def)

lemma call_warning_texts:
  "warning_texts (call c self) = warning_texts self @ call_warnings c"
  by (cases c)
     (simp_all add: check_associated_count_eq
        errors_appended_load_sets[unfolded errors_appended_def]
        errors_appended_has_all_rationales[unfolded errors_appended_def]
        errors_appended_check_exclusivity[unfolded errors_appended_def]
        errors_appended_find_non_https_urls[unfolded errors_appended_def]
        errors_appended_find_invalid_eTLD_Plus1[unfolded errors_appended_def]
        errors_appended_check_list_sites[unfolded errors_appended_def]
        errors_appended_find_invalid_well_known[unfolded errors_appended_def]
        errors_appended_find_invalid_removal[unfolded errors_appended_def]
        errors_appended_find_invalid_alias_eSLDs[unfolded errors_appended_def]
        errors_appended_find_robots_tag[unfolded errors_appended_def]
        errors_appended_find_ads_txt[unfolded errors_appended_def]
        errors_appended_check_for_service_redirect[unfolded errors_appended_def])

lemma call_error_list_prefix: "prefix (error_list self) (error_list (call c self))"
  by (cases c)
     (simp_all add: check_associated_count_eq
        errors_appended_load_sets[unfolded errors_appended_def]
        errors_appended_has_all_rationales[unfolded errors_appended_def]
        errors_appended_check_exclusivity[unfolded errors_appended_def]
        errors_appended_find_non_https_urls[unfolded errors_appended_def]
        errors_appended_find_invalid_eTLD_Plus1[unfolded errors_appended_def]
        errors_appended_check_list_sites[unfolded errors_appended_def]
        errors_appended_find_invalid_well_known[unfolded errors_appended_def]
        errors_appended_find_invalid_removal[unfolded errors_appended_def]
        errors_appended_find_invalid_alias_eSLDs[unfolded errors_appended_def]
        errors_appended_find_robots_tag[unfolded errors_appended_def]
        errors_appended_find_ads_txt[unfolded errors_appended_def]
        errors_appended_check_for_service_redirect[unfolded errors_appended_def])

lemma run_warning_texts:
  "warning_texts (run calls self) = warning_texts self @ concat (map call_warnings calls)"
  unfolding run_def
  by (induction calls arbitrary: self) (simp_all add: call_warning_texts)

lemma run_error_list_prefix: "prefix (error_list self) (error_list (run calls self))"
  unfolding run_def
proof (induction calls arbitrary: self)
  case Nil
  show ?case by simp
next
  case (Cons c calls)
  have "prefix (error_list self) (error_list (foldl (\<lambda>s c. call c s) (call c self) calls))"
    using call_error_list_prefix[of self c] Cons.IH[of "call c self"]
    by (rule prefix_order.trans)
  then show ?case by simp
qed

text \<open>
  Claim C10. \<open>check_associated_count\<close> appends one warning for every Set with more than
  five associated sites, in order, and changes nothing else: the errors stay as they
  are. Every other check leaves the warnings unchanged. So after any run the warnings
  are the ones the object started with, followed by those of the calls of
  \<open>check_associated_count\<close> in the run.
\<close>

theorem only_check_associated_count_warns:
  "check_associated_count check_sets self =
     self\<lparr>warning_texts :=
       warning_texts self
       @ map (\<lambda>e. ''Warning: the set for '' @ fst e @ '' contains more than 5 associated sites.'')
           (filter (\<lambda>e. length (associated_sites (snd e)) > 5) check_sets)\<rparr>
   \<and> error_list (check_associated_count check_sets self) = error_list self
   \<and> warning_texts (snd (load_sets rws_sites self)) = warning_texts self
   \<and> warning_texts (has_all_rationales rws_sites check_sets self) = warning_texts self
   \<and> warning_texts (check_exclusivity str_set check_sets self) = warning_texts self
   \<and> warning_texts (find_non_https_urls check_sets self) = warning_texts self
   \<and> warning_texts (find_invalid_eTLD_Plus1 etlds check_sets self) = warning_texts self
   \<and> warning_texts (check_list_sites net primary site_list self) = warning_texts self
   \<and> warning_texts (find_invalid_well_known str_list net check_sets self) = warning_texts self
   \<and> warning_texts (find_invalid_removal net check_sets self) = warning_texts self
   \<and> warning_texts (find_invalid_alias_eSLDs icanns check_sets self) = warning_texts self
   \<and> warning_texts (find_robots_tag net check_sets self) = warning_texts self
   \<and> warning_texts (find_ads_txt net check_sets self) = warning_texts self
   \<and> warning_texts (check_for_service_redirect net check_sets self) = warning_texts self
   \<and> warning_texts (run calls self) = warning_texts self @ concat (map call_warnings calls)"
  using errors_appended_load_sets[of self rws_sites]
    errors_appended_has_all_rationales[of self rws_sites check_sets]
    errors_appended_check_exclusivity[of self str_set check_sets]
    errors_appended_find_non_https_urls[of self check_sets]
    errors_appended_find_invalid_eTLD_Plus1[of self etlds check_sets]
    errors_appended_check_list_sites[of self net primary site_list]
    errors_appended_find_invalid_well_known[of self str_list net check_sets]
    errors_appended_find_invalid_removal[of self net check_sets]
    errors_appended_find_invalid_alias_eSLDs[of self icanns check_sets]
    errors_appended_find_robots_tag[of self net check_sets]
    errors_appended_find_ads_txt[of self net check_sets]
    errors_appended_check_for_service_redirect[of self net check_sets]
  by (simp add: errors_appended_def check_associated_count_eq count_warnings_def
        run_warning_texts)

text \<open>A Set with six associated sites is warned about, one with five is not.\<close>

theorem only_check_associated_count_warns_witness:
  "check_associated_count
     [(''https://p.com'',
       \<lparr>ccTLDs = [], rws_primary = ''https://p.com'',
        associated_sites = [''a1'', ''a2'', ''a3'', ''a4'', ''a5'', ''a6''], service_sites = []\<rparr>),
      (''https://q.com'',
       \<lparr>ccTLDs = [], rws_primary = ''https://q.com'',
        associated_sites = [''b1'', ''b2'', ''b3'', ''b4'', ''b5''], service_sites = []\<rparr>)]
     (init ()) =
   \<lparr>error_list = [],
    warning_texts = [''Warning: the set for https://p.com contains more than 5 associated sites.''],
    world = ()\<rparr>"
  using only_check_associated_count_warns[of
      "[(''https://p.com'',
         \<lparr>ccTLDs = [], rws_primary = ''https://p.com'',
          associated_sites = [''a1'', ''a2'', ''a3'', ''a4'', ''a5'', ''a6''], service_sites = []\<rparr>),
        (''https://q.com'',
         \<lparr>ccTLDs = [], rws_primary = ''https://q.com'',
          associated_sites = [''b1'', ''b2'', ''b3'', ''b4'', ''b5''], service_sites = []\<rparr>)]"
      "init ()"]
  by (simp add: init_def)

subsection \<open>The growth of both lists\<close>

text \<open>
  No check reads \<open>error_list\<close> or \<open>warning_texts\<close>: each is \<open>appends_only\<close>, and so is any
  sequence and any loop of steps that are.
\<close>

lemma init_simps [simp]:
  "error_list (init w) = []" "warning_texts (init w) = []" "world (init w) = w"
  by (simp_all add: init_def)

lemma appends_onlyD:
  assumes "appends_only f"
  shows "error_list (f self) = error_list self @ error_list (f (init (world self)))"
    and "warning_texts (f self) = warning_texts self @ warning_texts (f (init (world self)))"
    and "world (f self) = world (f (init (world self)))"
  using assms unfolding appends_only_def by blast+

lemma appends_only_id: "appends_only (\<lambda>s. s)"
  by (simp add: appends_only_def)

lemma appends_only_error_list_append: "appends_only (error_list_append msg)"
  by (simp add: appends_only_def error_list_append_def)

lemma appends_only_error_list_extend: "appends_only (error_list_extend msgs)"
  by (simp add: appends_only_def error_list_extend_def)

lemma appends_only_warning_texts_append: "appends_only (warning_texts_append msg)"
  by (simp add: appends_only_def warning_texts_append_def)

lemma appends_only_comp:
  assumes f: "appends_only f" and g: "appends_only g"
  shows "appends_only (\<lambda>s. g (f s))"
  unfolding appends_only_def
proof (intro allI conjI)
  fix self :: "'a rws_check"
  let ?s0 = "init (world self) :: 'a rws_check"
  have w: "world (f self) = world (f ?s0)" by (rule appends_onlyD(3)[OF f])
  have ef: "error_list (f self) = error_list self @ error_list (f ?s0)"
    by (rule appends_onlyD(1)[OF f])
  have wf: "warning_texts (f self) = warning_texts self @ warning_texts (f ?s0)"
    by (rule appends_onlyD(2)[OF f])
  have e1: "error_list (g (f self)) = error_list (f self) @ error_list (g (init (world (f self))))"
    by (rule appends_onlyD(1)[OF g])
  have e2: "error_list (g (f ?s0)) = error_list (f ?s0) @ error_list (g (init (world (f ?s0))))"
    by (rule appends_onlyD(1)[OF g])
  show "error_list (g (f self)) = error_list self @ error_list (g (f ?s0))"
    unfolding e1 e2 ef w by simp
  have w1: "warning_texts (g (f self)) =
      warning_texts (f self) @ warning_texts (g (init (world (f self))))"
    by (rule appends_onlyD(2)[OF g])
  have w2: "warning_texts (g (f ?s0)) =
      warning_texts (f ?s0) @ warning_texts (g (init (world (f ?s0))))"
    by (rule appends_onlyD(2)[OF g])
  show "warning_texts (g (f self)) = warning_texts self @ warning_texts (g (f ?s0))"
    unfolding w1 w2 wf w by simp
  have v1: "world (g (f self)) = world (g (init (world (f self))))"
    by (rule appends_onlyD(3)[OF g])
  have v2: "world (g (f ?s0)) = world (g (init (world (f ?s0))))"
    by (rule appends_onlyD(3)[OF g])
  show "world (g (f self)) = world (g (f ?s0))"
    unfolding v1 v2 w ..
qed

lemma appends_only_foldl:
  assumes "\<And>x. appends_only (\<lambda>s. f s x)"
  shows "appends_only (\<lambda>s. foldl f s xs)"
proof (induction xs rule: rev_induct)
  case Nil
  show ?case by (simp add: appends_only_id)
next
  case (snoc x xs)
  from appends_only_comp[OF snoc.IH assms[of x]] show ?case by simp
qed

lemma appends_only_if:
  "appends_only f \<Longrightarrow> appends_only g \<Longrightarrow> appends_only (\<lambda>s. if b then f s else g s)"
  by (cases b) simp_all

lemma appends_only_report_each: "appends_only (report_each ok msg xs)"
  by (simp add: appends_only_def report_each_eq)


lemma appends_only_then_report_each:
  "appends_only h \<Longrightarrow> appends_only (\<lambda>s. report_each ok msg xs (h s))"
  by (rule appends_only_comp[OF _ appends_only_report_each])

lemma appends_only_then_append:
  "appends_only h \<Longrightarrow> appends_only (\<lambda>s. error_list_append msg (h s))"
  by (rule appends_only_comp[OF _ appends_only_error_list_append])

lemma appends_only_then_foldl:
  "(\<And>x. appends_only (\<lambda>s. f s x)) \<Longrightarrow> appends_only h
     \<Longrightarrow> appends_only (\<lambda>s. foldl f (h s) xs)"
  by (rule appends_only_comp[OF _ appends_only_foldl])

lemma appends_only_load_sets: "appends_only (\<lambda>s. snd (load_sets rws_sites s))"
  by (simp add: appends_only_def load_sets_def split: prod.splits)

lemma appends_only_has_all_rationales:
  "appends_only (has_all_rationales rws_sites check_sets)"
  unfolding has_all_rationales_eq[abs_def] by (rule appends_only_error_list_extend)

lemma appends_only_check_associated_count: "appends_only (check_associated_count check_sets)"
  by (simp add: appends_only_def check_associated_count_eq)

lemma appends_only_find_non_https_urls_ccTLD:
  "appends_only (\<lambda>s. find_non_https_urls_ccTLD s x)"
  unfolding find_non_https_urls_ccTLD_def split_def
  by (intro appends_only_then_report_each appends_only_id)

lemma appends_only_find_non_https_urls_set:
  "appends_only (\<lambda>s. find_non_https_urls_set s x)"
  unfolding find_non_https_urls_set_def split_def Let_def
  by (intro appends_only_then_report_each appends_only_then_foldl
        appends_only_find_non_https_urls_ccTLD appends_only_id)

lemma appends_only_find_non_https_urls: "appends_only (find_non_https_urls check_sets)"
  unfolding find_non_https_urls_def[abs_def]
  by (rule appends_only_foldl) (rule appends_only_find_non_https_urls_set)

lemma appends_only_find_invalid_eTLD_Plus1_ccTLD:
  "appends_only (\<lambda>s. find_invalid_eTLD_Plus1_ccTLD etlds s x)"
  unfolding find_invalid_eTLD_Plus1_ccTLD_def split_def
  by (intro appends_only_then_report_each appends_only_id)

lemma appends_only_find_invalid_eTLD_Plus1_set:
  "appends_only (\<lambda>s. find_invalid_eTLD_Plus1_set etlds s x)"
  unfolding find_invalid_eTLD_Plus1_set_def split_def Let_def
  by (intro appends_only_then_report_each appends_only_then_foldl
        appends_only_find_invalid_eTLD_Plus1_ccTLD appends_only_id)

lemma appends_only_find_invalid_eTLD_Plus1:
  "appends_only (find_invalid_eTLD_Plus1 etlds check_sets)"
  unfolding find_invalid_eTLD_Plus1_def[abs_def]
  by (rule appends_only_foldl) (rule appends_only_find_invalid_eTLD_Plus1_set)

lemma appends_only_find_invalid_alias_eSLDs:
  "appends_only (find_invalid_alias_eSLDs icanns check_sets)"
  unfolding find_invalid_alias_eSLDs_def[abs_def] find_invalid_alias_eSLDs_set_eq[abs_def]
    error_list_extend_foldl
  by (rule appends_only_error_list_extend)

lemma appends_only_check_list_sites_site:
  "appends_only (\<lambda>s. check_list_sites_site net primary s site)"
  unfolding appends_only_def check_list_sites_site_def Let_def
  by (auto simp: error_list_append_def split: prod.splits sum.splits)

lemma appends_only_check_list_sites: "appends_only (check_list_sites net primary site_list)"
  unfolding check_list_sites_def[abs_def]
  by (rule appends_only_foldl) (rule appends_only_check_list_sites_site)

lemma appends_only_find_invalid_removal: "appends_only (find_invalid_removal net subtracted_sets)"
proof -
  have "appends_only (\<lambda>s. find_invalid_removal_primary net s p)" for p
    unfolding appends_only_def find_invalid_removal_primary_def Let_def
    by (auto simp: error_list_append_def split: prod.splits sum.splits)
  then show ?thesis
    unfolding find_invalid_removal_def[abs_def] by (rule appends_only_foldl)
qed

lemma appends_only_find_robots_tag: "appends_only (find_robots_tag net check_sets)"
proof -
  have "appends_only (\<lambda>s. find_robots_tag_site net s p)" for p
    unfolding appends_only_def find_robots_tag_site_def
    by (auto simp: error_list_append_def split: prod.splits sum.splits option.splits)
  then show ?thesis
    unfolding find_robots_tag_def[abs_def] by (intro appends_only_foldl)
qed

lemma appends_only_find_ads_txt: "appends_only (find_ads_txt net check_sets)"
proof -
  have "appends_only (\<lambda>s. find_ads_txt_site net s p)" for p
    unfolding appends_only_def find_ads_txt_site_def Let_def
    by (auto simp: error_list_append_def split: prod.splits sum.splits)
  then show ?thesis
    unfolding find_ads_txt_def[abs_def] by (intro appends_only_foldl)
qed

lemma appends_only_check_for_service_redirect:
  "appends_only (check_for_service_redirect net check_sets)"
proof -
  have "appends_only (\<lambda>s. check_for_service_redirect_site net s p)" for p
    unfolding appends_only_def check_for_service_redirect_site_def
    by (auto simp: error_list_append_def split: prod.splits sum.splits)
  then show ?thesis
    unfolding check_for_service_redirect_def[abs_def] by (intro appends_only_foldl)
qed


lemma appends_only_then_check_list_sites:
  "appends_only h \<Longrightarrow> appends_only (\<lambda>s. check_list_sites net primary site_list (h s))"
  by (rule appends_only_comp[OF _ appends_only_check_list_sites])

lemma appends_only_find_invalid_well_known_set:
  "appends_only (\<lambda>s. find_invalid_well_known_set str_list net s entry)"
proof -
  have "appends_only
     (\<lambda>s. case open_and_load_json net url (world s) of
             (Inl inst, w) \<Rightarrow> error_list_append (m1 inst) (s\<lparr>world := w\<rparr>)
           | (Inr json_schema, w) \<Rightarrow>
               foldl (\<lambda>s x. error_list_extend (g json_schema x) s)
                 (error_list_extend (e3 json_schema)
                   (error_list_extend (e2 json_schema)
                     (if b json_schema then error_list_append (m0 json_schema) (s\<lparr>world := w\<rparr>)
                      else s\<lparr>world := w\<rparr>)))
                 (ks json_schema))"
    for url m1 g e3 e2 b m0 ks
    unfolding appends_only_def error_list_extend_foldl
    by (auto simp: error_list_append_def error_list_extend_def split: prod.splits sum.splits)
  then show ?thesis
    unfolding find_invalid_well_known_set_def split_def Let_def
    by (intro appends_only_then_check_list_sites)
qed

lemma appends_only_find_invalid_well_known:
  "appends_only (find_invalid_well_known str_list net check_sets)"
  unfolding find_invalid_well_known_def[abs_def]
  by (rule appends_only_foldl) (rule appends_only_find_invalid_well_known_set)

lemma appends_only_claimedD:
  assumes "appends_only_claimed g"
  shows "fst (g (site_list, self)) = fst (g (site_list, init (world self)))"
    and "error_list (snd (g (site_list, self))) =
            error_list self @ error_list (snd (g (site_list, init (world self))))"
    and "warning_texts (snd (g (site_list, self))) =
            warning_texts self @ warning_texts (snd (g (site_list, init (world self))))"
    and "world (snd (g (site_list, self))) = world (snd (g (site_list, init (world self))))"
  using assms unfolding appends_only_claimed_def by blast+

lemma appends_only_claimed_id: "appends_only_claimed (\<lambda>st. st)"
  by (simp add: appends_only_claimed_def)

lemma appends_only_claimed_comp:
  assumes f: "appends_only_claimed f" and g: "appends_only_claimed g"
  shows "appends_only_claimed (\<lambda>st. g (f st))"
  unfolding appends_only_claimed_def
proof (intro allI)
  fix site_list and self :: "'a rws_check"
  let ?s0 = "init (world self) :: 'a rws_check"
  obtain c1 s1 where a: "f (site_list, self) = (c1, s1)" by (cases "f (site_list, self)")
  obtain c2 s2 where b: "f (site_list, ?s0) = (c2, s2)" by (cases "f (site_list, ?s0)")
  from appends_only_claimedD[OF f, of site_list self] a b
  have c: "c1 = c2" and e: "error_list s1 = error_list self @ error_list s2"
    and wt: "warning_texts s1 = warning_texts self @ warning_texts s2"
    and w: "world s1 = world s2"
    by simp_all
  from appends_only_claimedD[OF g, of c1 s1] appends_only_claimedD[OF g, of c2 s2]
  show "fst (g (f (site_list, self))) = fst (g (f (site_list, ?s0)))
      \<and> error_list (snd (g (f (site_list, self)))) =
          error_list self @ error_list (snd (g (f (site_list, ?s0))))
      \<and> warning_texts (snd (g (f (site_list, self)))) =
          warning_texts self @ warning_texts (snd (g (f (site_list, ?s0))))
      \<and> world (snd (g (f (site_list, self)))) = world (snd (g (f (site_list, ?s0))))"
    unfolding a b c e wt w by simp
qed

lemma appends_only_claimed_foldl:
  assumes "\<And>x. appends_only_claimed (\<lambda>st. f st x)"
  shows "appends_only_claimed (\<lambda>st. foldl f st xs)"
proof (induction xs rule: rev_induct)
  case Nil
  show ?case by (simp add: appends_only_claimed_id)
next
  case (snoc x xs)
  from appends_only_claimed_comp[OF snoc.IH assms[of x]] show ?case by simp
qed

lemma appends_only_claimed_aliases:
  "appends_only_claimed (\<lambda>st. check_exclusivity_aliases str_set st aliases)"
  by (simp add: appends_only_claimed_def check_exclusivity_aliases_def Let_def
        error_list_append_def)

lemma appends_only_claimed_set:
  "appends_only_claimed (\<lambda>st. check_exclusivity_set str_set st entry)"
proof -
  obtain p rws where e: "entry = (p, rws)" by (cases entry)
  define g1 :: "string set \<times> 'a rws_check \<Rightarrow> string set \<times> 'a rws_check" where "g1 = (\<lambda>st.
     if p \<in> fst st
     then (fst st,
           error_list_append
             (''This primary is already registered in another related website''
              @ '' set: '' @ p) (snd st))
     else (update_str (fst st) p, snd st))"
  define g2 :: "string set \<times> 'a rws_check \<Rightarrow> string set \<times> 'a rws_check" where "g2 = (\<lambda>st.
     if set (associated_sites rws) \<inter> fst st \<noteq> {}
     then (fst st,
           error_list_append
             (''These associated sites are already registered in ''
              @ ''another related website set: '' @ str_set (set (associated_sites rws) \<inter> fst st))
             (snd st))
     else (fst st \<union> set (associated_sites rws), snd st))"
  define g3 :: "string set \<times> 'a rws_check \<Rightarrow> string set \<times> 'a rws_check" where "g3 = (\<lambda>st.
     if set (service_sites rws) \<inter> fst st \<noteq> {}
     then (fst st,
           error_list_append
             (''These service sites are already registered in another''
              @ '' related website set: '' @ str_set (set (service_sites rws) \<inter> fst st))
             (snd st))
     else (fst st \<union> set (service_sites rws), snd st))"
  have res: "(\<lambda>st. check_exclusivity_set str_set st entry)
           = (\<lambda>st. foldl (check_exclusivity_aliases str_set) (g3 (g2 (g1 st))) (map snd (ccTLDs rws)))"
    by (intro ext)
       (simp add: e check_exclusivity_set_def g1_def g2_def g3_def Let_def split_def)
  have 1: "appends_only_claimed g1"
    by (simp add: appends_only_claimed_def g1_def error_list_append_def)
  have 2: "appends_only_claimed g2"
    by (simp add: appends_only_claimed_def g2_def error_list_append_def)
  have 3: "appends_only_claimed g3"
    by (simp add: appends_only_claimed_def g3_def error_list_append_def)
  have 4: "appends_only_claimed
      (\<lambda>st. foldl (check_exclusivity_aliases str_set) st (map snd (ccTLDs rws)))"
    by (rule appends_only_claimed_foldl) (rule appends_only_claimed_aliases)
  from appends_only_claimed_comp[OF appends_only_claimed_comp[OF appends_only_claimed_comp[OF 1 2] 3] 4]
  show ?thesis unfolding res .
qed

lemma appends_only_check_exclusivity: "appends_only (check_exclusivity str_set check_sets)"
proof -
  have c: "appends_only_claimed (\<lambda>st. foldl (check_exclusivity_set str_set) st check_sets)"
    by (rule appends_only_claimed_foldl) (rule appends_only_claimed_set)
  show ?thesis
    unfolding appends_only_def check_exclusivity_def
    using appends_only_claimedD(2-4)[OF c, of "{}"] by blast
qed

lemma appends_only_call: "appends_only (call c)"
proof (cases c)
  case (Load_sets rs)
  have "call c = (\<lambda>s. snd (load_sets rs s))" by (intro ext) (simp add: Load_sets)
  then show ?thesis by (simp add: appends_only_load_sets)
next
  case (Has_all_rationales rs cs)
  have "call c = has_all_rationales rs cs" by (intro ext) (simp add: Has_all_rationales)
  then show ?thesis by (simp add: appends_only_has_all_rationales)
next
  case (Check_exclusivity f cs)
  have "call c = check_exclusivity f cs" by (intro ext) (simp add: Check_exclusivity)
  then show ?thesis by (simp add: appends_only_check_exclusivity)
next
  case (Check_associated_count cs)
  have "call c = check_associated_count cs" by (intro ext) (simp add: Check_associated_count)
  then show ?thesis by (simp add: appends_only_check_associated_count)
next
  case (Find_non_https_urls cs)
  have "call c = find_non_https_urls cs" by (intro ext) (simp add: Find_non_https_urls)
  then show ?thesis by (simp add: appends_only_find_non_https_urls)
next
  case (Find_invalid_eTLD_Plus1 etlds cs)
  have "call c = find_invalid_eTLD_Plus1 etlds cs"
    by (intro ext) (simp add: Find_invalid_eTLD_Plus1)
  then show ?thesis by (simp add: appends_only_find_invalid_eTLD_Plus1)
next
  case (Check_list_sites net p sites)
  have "call c = check_list_sites net p sites" by (intro ext) (simp add: Check_list_sites)
  then show ?thesis by (simp add: appends_only_check_list_sites)
next
  case (Find_invalid_well_known f net cs)
  have "call c = find_invalid_well_known f net cs"
    by (intro ext) (simp add: Find_invalid_well_known)
  then show ?thesis by (simp add: appends_only_find_invalid_well_known)
next
  case (Find_invalid_removal net cs)
  have "call c = find_invalid_removal net cs" by (intro ext) (simp add: Find_invalid_removal)
  then show ?thesis by (simp add: appends_only_find_invalid_removal)
next
  case (Find_invalid_alias_eSLDs icanns cs)
  have "call c = find_invalid_alias_eSLDs icanns cs"
    by (intro ext) (simp add: Find_invalid_alias_eSLDs)
  then show ?thesis by (simp add: appends_only_find_invalid_alias_eSLDs)
next
  case (Find_robots_tag net cs)
  have "call c = find_robots_tag net cs" by (intro ext) (simp add: Find_robots_tag)
  then show ?thesis by (simp add: appends_only_find_robots_tag)
next
  case (Find_ads_txt net cs)
  have "call c = find_ads_txt net cs" by (intro ext) (simp add: Find_ads_txt)
  then show ?thesis by (simp add: appends_only_find_ads_txt)
next
  case (Check_for_service_redirect net cs)
  have "call c = check_for_service_redirect net cs"
    by (intro ext) (simp add: Check_for_service_redirect)
  then show ?thesis by (simp add: appends_only_check_for_service_redirect)
qed

lemma appends_only_run: "appends_only (run calls)"
  unfolding run_def[abs_def]
  by (rule appends_only_foldl) (rule appends_only_call)

lemma load_sets_loop_append:
  "load_sets_loop (rs1 @ rs2) st = load_sets_loop rs2 (load_sets_loop rs1 st)"
  by (induction rs1 arbitrary: st) (auto split: prod.splits)

text \<open>
  What each check appends, element by element. The checks that read the submission
  alone append a list that is written out for every element of their input. The remote
  checks are one loop of visits over the flat list of all their addresses.
\<close>

lemma load_sets_errors_closed:
  "error_list (snd (load_sets rws_sites self)) =
     error_list self
     @ map (\<lambda>i. j_primary (rws_sites ! i) @ '' is already a primary of another site'')
         (filter (\<lambda>i. j_primary (rws_sites ! i) \<in> j_primary ` set (take i rws_sites))
            [0..<length rws_sites])"
  using load_sets_loop_errors[of rws_sites]
  by (cases "load_sets_loop rws_sites ([], [])") (simp add: load_sets_def)

lemma walk_errors_append:
  "walk_errors str_set claimed (xs @ ys) =
     walk_errors str_set claimed xs @ walk_errors str_set (foldl step_claim claimed xs) ys"
  by (induction xs arbitrary: claimed) simp_all

lemma check_exclusivity_aliases_closed:
  "check_exclusivity_aliases str_set (claimed, self) aliases =
     (step_claim claimed (Inr (''ccTLD'', aliases)),
      error_list_extend (step_errors str_set claimed (Inr (''ccTLD'', aliases))) self)"
  by (simp add: check_exclusivity_aliases_def Let_def error_list_extend_def
        error_list_append_def)

lemma check_exclusivity_aliases_foldl_closed:
  "foldl (check_exclusivity_aliases str_set) (claimed, self) as =
     (foldl step_claim claimed (map (\<lambda>aliases. Inr (''ccTLD'', aliases)) as),
      error_list_extend
        (walk_errors str_set claimed (map (\<lambda>aliases. Inr (''ccTLD'', aliases)) as)) self)"
proof (induction as arbitrary: claimed self)
  case Nil
  show ?case by (simp add: error_list_extend_def)
next
  case (Cons a as)
  show ?case
    unfolding foldl_Cons list.map check_exclusivity_aliases_closed Cons.IH walk_errors.simps
    by (simp add: error_list_extend_def)
qed

lemma check_exclusivity_set_closed:
  "check_exclusivity_set str_set (claimed, self) entry =
     (foldl step_claim claimed (exclusivity_steps [entry]),
      error_list_extend (walk_errors str_set claimed (exclusivity_steps [entry])) self)"
  by (cases entry)
     (simp add: check_exclusivity_set_def exclusivity_steps_def Let_def
        check_exclusivity_aliases_foldl_closed error_list_extend_def error_list_append_def)

lemma exclusivity_steps_Cons:
  "exclusivity_steps (entry # check_sets) = exclusivity_steps [entry] @ exclusivity_steps check_sets"
  by (simp add: exclusivity_steps_def)

lemma check_exclusivity_foldl_closed:
  "foldl (check_exclusivity_set str_set) (claimed, self) check_sets =
     (foldl step_claim claimed (exclusivity_steps check_sets),
      error_list_extend (walk_errors str_set claimed (exclusivity_steps check_sets)) self)"
proof (induction check_sets arbitrary: claimed self)
  case Nil
  show ?case by (simp add: exclusivity_steps_def error_list_extend_def)
next
  case (Cons entry check_sets)
  show ?case
    unfolding foldl_Cons check_exclusivity_set_closed Cons.IH exclusivity_steps_Cons[of entry check_sets]
      walk_errors_append foldl_append
    by (simp add: error_list_extend_def)
qed

lemma check_exclusivity_closed:
  "check_exclusivity str_set check_sets self =
     error_list_extend (walk_errors str_set {} (exclusivity_steps check_sets)) self"
  by (simp add: check_exclusivity_def check_exclusivity_foldl_closed)

lemma report_each_extend:
  "report_each ok msg xs self = error_list_extend (map msg (filter (\<lambda>x. \<not> ok x) xs)) self"
  by (simp add: report_each_eq error_list_extend_def)

lemma error_list_extend_extend:
  "error_list_extend ys (error_list_extend xs self) = error_list_extend (xs @ ys) self"
  by (simp add: error_list_extend_def)

lemma labelled_errors_concat:
  "concat (map (\<lambda>e. map m (filter p (f e))) xs) = map m (filter p (concat (map f xs)))"
  by (induction xs) simp_all

lemma find_non_https_urls_set_closed:
  "find_non_https_urls_set self entry =
     error_list_extend
       (map (\<lambda>x. ''The provided '' @ fst x @ '' site does not begin with https:// '' @ snd x)
          (filter (\<lambda>x. \<not> url_is_https (snd x)) (labelled_sites entry)))
       self"
proof -
  obtain primary curr_set where e: "entry = (primary, curr_set)" by (cases entry)
  define M :: "string \<times> string \<Rightarrow> string"
    where "M = (\<lambda>x. ''The provided '' @ fst x @ '' site does not begin with https:// '' @ snd x)"
  have m: "(\<lambda>p. ''The provided primary site does not begin with https:// '' @ p) = (\<lambda>p. M (''primary'', p))"
    "(\<lambda>a. ''The provided aliased site does not begin with https:// '' @ a) = (\<lambda>a. M (''aliased'', a))"
    "(\<lambda>alias. ''The provided alias site does not begin with https:// '' @ alias) = (\<lambda>a. M (''alias'', a))"
    "(\<lambda>a. ''The provided associated site does not begin with https:// '' @ a) = (\<lambda>a. M (''associated'', a))"
    "(\<lambda>s. ''The provided service site does not begin with https:// '' @ s) = (\<lambda>a. M (''service'', a))"
    by (simp_all add: M_def)
  have lab: "report_each (url_is_https) (\<lambda>x. M (l, x)) xs s =
      error_list_extend (map M (filter (\<lambda>x. \<not> url_is_https (snd x)) (map (Pair l) xs))) s"
    for l xs and s :: "'a rws_check"
    by (simp add: report_each_eq error_list_extend_def filter_map comp_def)
  have cc1: "find_non_https_urls_ccTLD s cc =
      error_list_extend
        (map M (filter (\<lambda>x. \<not> url_is_https (snd x))
                  ((''aliased'', fst cc) # map (Pair ''alias'') (snd cc)))) s"
    for cc and s :: "'a rws_check"
    unfolding find_non_https_urls_ccTLD_def split_def m lab error_list_extend_extend
    by simp
  have cc: "foldl (find_non_https_urls_ccTLD) s (ccTLDs curr_set) =
      error_list_extend
        (map M (filter (\<lambda>x. \<not> url_is_https (snd x))
             (concat (map (\<lambda>cc. (''aliased'', fst cc) # map (Pair ''alias'') (snd cc))
                        (ccTLDs curr_set))))) s" for s :: "'a rws_check"
    unfolding cc1[abs_def] error_list_extend_foldl labelled_errors_concat ..
  have "find_non_https_urls_set self (primary, curr_set) =
     error_list_extend (map M (filter (\<lambda>x. \<not> url_is_https (snd x)) (labelled_sites (primary, curr_set))))
       self"
    unfolding find_non_https_urls_set_def prod.case Let_def m lab cc error_list_extend_extend
    by (simp add: labelled_sites_def)
  then show ?thesis unfolding e M_def .
qed

lemma find_non_https_urls_closed:
  "find_non_https_urls check_sets self =
     error_list_extend
       (map (\<lambda>x. ''The provided '' @ fst x @ '' site does not begin with https:// '' @ snd x)
          (filter (\<lambda>x. \<not> url_is_https (snd x)) (concat (map labelled_sites check_sets))))
       self"
  unfolding find_non_https_urls_def find_non_https_urls_set_closed[abs_def]
    error_list_extend_foldl labelled_errors_concat ..

lemma find_invalid_eTLD_Plus1_set_closed:
  "find_invalid_eTLD_Plus1_set etlds self entry =
     error_list_extend
       (map (\<lambda>x. ''The provided '' @ fst x @ '' site is not an eTLD+1: '' @ snd x)
          (filter (\<lambda>x. \<not> is_eTLD_Plus1 etlds (snd x)) (labelled_sites entry)))
       self"
proof -
  obtain primary curr_set where e: "entry = (primary, curr_set)" by (cases entry)
  define M :: "string \<times> string \<Rightarrow> string"
    where "M = (\<lambda>x. ''The provided '' @ fst x @ '' site is not an eTLD+1: '' @ snd x)"
  have m: "(\<lambda>p. ''The provided primary site is not an eTLD+1: '' @ p) = (\<lambda>p. M (''primary'', p))"
    "(\<lambda>a. ''The provided aliased site is not an eTLD+1: '' @ a) = (\<lambda>a. M (''aliased'', a))"
    "(\<lambda>alias. ''The provided alias site is not an eTLD+1: '' @ alias) = (\<lambda>a. M (''alias'', a))"
    "(\<lambda>a. ''The provided associated site is not an eTLD+1: '' @ a) = (\<lambda>a. M (''associated'', a))"
    "(\<lambda>s. ''The provided service site is not an eTLD+1: '' @ s) = (\<lambda>a. M (''service'', a))"
    by (simp_all add: M_def)
  have lab: "report_each (is_eTLD_Plus1 etlds) (\<lambda>x. M (l, x)) xs s =
      error_list_extend (map M (filter (\<lambda>x. \<not> is_eTLD_Plus1 etlds (snd x)) (map (Pair l) xs))) s"
    for l xs and s :: "'a rws_check"
    by (simp add: report_each_eq error_list_extend_def filter_map comp_def)
  have cc1: "find_invalid_eTLD_Plus1_ccTLD etlds s cc =
      error_list_extend
        (map M (filter (\<lambda>x. \<not> is_eTLD_Plus1 etlds (snd x))
                  ((''aliased'', fst cc) # map (Pair ''alias'') (snd cc)))) s"
    for cc and s :: "'a rws_check"
    unfolding find_invalid_eTLD_Plus1_ccTLD_def split_def m lab error_list_extend_extend
    by simp
  have cc: "foldl (find_invalid_eTLD_Plus1_ccTLD etlds) s (ccTLDs curr_set) =
      error_list_extend
        (map M (filter (\<lambda>x. \<not> is_eTLD_Plus1 etlds (snd x))
             (concat (map (\<lambda>cc. (''aliased'', fst cc) # map (Pair ''alias'') (snd cc))
                        (ccTLDs curr_set))))) s" for s :: "'a rws_check"
    unfolding cc1[abs_def] error_list_extend_foldl labelled_errors_concat ..
  have "find_invalid_eTLD_Plus1_set etlds self (primary, curr_set) =
     error_list_extend (map M (filter (\<lambda>x. \<not> is_eTLD_Plus1 etlds (snd x)) (labelled_sites (primary, curr_set))))
       self"
    unfolding find_invalid_eTLD_Plus1_set_def prod.case Let_def m lab cc error_list_extend_extend
    by (simp add: labelled_sites_def)
  then show ?thesis unfolding e M_def .
qed

lemma find_invalid_eTLD_Plus1_closed:
  "find_invalid_eTLD_Plus1 etlds check_sets self =
     error_list_extend
       (map (\<lambda>x. ''The provided '' @ fst x @ '' site is not an eTLD+1: '' @ snd x)
          (filter (\<lambda>x. \<not> is_eTLD_Plus1 etlds (snd x)) (concat (map labelled_sites check_sets))))
       self"
  unfolding find_invalid_eTLD_Plus1_def find_invalid_eTLD_Plus1_set_closed[abs_def]
    error_list_extend_foldl labelled_errors_concat ..

lemma find_invalid_alias_eSLDs_closed:
  "find_invalid_alias_eSLDs icanns check_sets self =
     error_list_extend
       (concat (map (\<lambda>e. concat (map (ccTLD_errors icanns (fst e) (snd e)) (ccTLDs (snd e))))
          check_sets))
       self"
  unfolding find_invalid_alias_eSLDs_def find_invalid_alias_eSLDs_set_eq[abs_def]
  by (rule error_list_extend_foldl)

lemma outcome_errors_Cons:
  "outcome_errors (v # vs) (out # outs) = snd v out @ outcome_errors vs outs"
  by (simp add: outcome_errors_def)

lemma visit_json_foldl_errors:
  "error_list (foldl (visit_json net) self vs) =
     error_list self @ outcome_errors vs (load_all net (world self) (map fst vs))"
proof (induction vs arbitrary: self)
  case Nil
  show ?case by (simp add: outcome_errors_def)
next
  case (Cons v vs)
  have e: "error_list (visit_json net self v) =
      error_list self @ snd v (fst (open_and_load_json net (fst v) (world self)))"
    and w: "world (visit_json net self v) = snd (open_and_load_json net (fst v) (world self))"
    by (simp_all add: visit_json_def error_list_extend_def)
  show ?case
    unfolding foldl_Cons Cons.IH[of "visit_json net self v"] e w list.map load_all.simps
      outcome_errors_Cons
    by simp
qed

lemma visit_get_foldl_errors:
  "error_list (foldl (visit_get net allow_redirects) self vs) =
     error_list self
     @ outcome_errors vs (get_all net allow_redirects (world self) (map fst vs))"
proof (induction vs arbitrary: self)
  case Nil
  show ?case by (simp add: outcome_errors_def)
next
  case (Cons v vs)
  have e: "error_list (visit_get net allow_redirects self v) =
      error_list self @ snd v (fst (requests_get net (fst v) allow_redirects (world self)))"
    and w: "world (visit_get net allow_redirects self v) =
      snd (requests_get net (fst v) allow_redirects (world self))"
    by (simp_all add: visit_get_def error_list_extend_def)
  show ?case
    unfolding foldl_Cons Cons.IH[of "visit_get net allow_redirects self v"] e w list.map
      get_all.simps outcome_errors_Cons
    by simp
qed

lemma load_all_length: "length (load_all net w urls) = length urls"
  by (induction urls arbitrary: w) simp_all

lemma check_list_sites_site_visit:
  "check_list_sites_site net primary self site =
     visit_json net self (site @ WELL_KNOWN, member_errors primary site)"
  by (cases "open_and_load_json net (site @ WELL_KNOWN) (world self)";
      cases "fst (open_and_load_json net (site @ WELL_KNOWN) (world self))")
     (auto simp: check_list_sites_site_def visit_json_def member_errors_def Let_def
        error_list_extend_def error_list_append_def)

lemma check_list_sites_visits:
  "check_list_sites net primary site_list self =
     foldl (visit_json net) self
       (map (\<lambda>site. (site @ WELL_KNOWN, member_errors primary site)) site_list)"
  unfolding check_list_sites_def check_list_sites_site_visit[abs_def] foldl_map ..

lemma find_invalid_well_known_set_visits:
  "find_invalid_well_known_set str_list net self entry =
     foldl (visit_json net) self (well_known_visits str_list entry)"
proof -
  obtain primary curr_rws_set where e: "entry = (primary, curr_rws_set)" by (cases entry)
  have first: "(case open_and_load_json net (primary @ WELL_KNOWN) (world self) of
                 (Inl inst, w) \<Rightarrow>
                   error_list_append
                     (''Experienced an error when trying to access '' @ (primary @ WELL_KNOWN)
                      @ ''; error was: '' @ inst)
                     (self\<lparr>world := w\<rparr>)
               | (Inr json_schema, w) \<Rightarrow>
                   foldl
                     (\<lambda>s aliased_site.
                        error_list_extend
                          (check_well_known_list str_list (aliased_site @ '' alias list'')
                             (dict_get (ccTLDs curr_rws_set) aliased_site)
                             (dict_get
                                (ccTLDs (RwsSet_init (w_ccTLDs json_schema) (w_primary json_schema)
                                   (w_associatedSites json_schema) (w_serviceSites json_schema)))
                                aliased_site))
                          s)
                     (error_list_extend
                        (check_well_known_list str_list ''serviceSites''
                           (service_sites curr_rws_set)
                           (service_sites (RwsSet_init (w_ccTLDs json_schema) (w_primary json_schema)
                              (w_associatedSites json_schema) (w_serviceSites json_schema))))
                        (error_list_extend
                           (check_well_known_list str_list ''associatedSites''
                              (associated_sites curr_rws_set)
                              (associated_sites (RwsSet_init (w_ccTLDs json_schema)
                                 (w_primary json_schema) (w_associatedSites json_schema)
                                 (w_serviceSites json_schema))))
                           (if rws_primary (RwsSet_init (w_ccTLDs json_schema) (w_primary json_schema)
                                 (w_associatedSites json_schema) (w_serviceSites json_schema))
                               \<noteq> Some (rws_primary curr_rws_set)
                            then error_list_append
                                   (''The '' @ WELL_KNOWN @ '' set's primary (''
                                    @ str_opt (rws_primary (RwsSet_init (w_ccTLDs json_schema)
                                        (w_primary json_schema) (w_associatedSites json_schema)
                                        (w_serviceSites json_schema)))
                                    @ '') did not equal ''
                                    @ ''the PR set's primary ('' @ rws_primary curr_rws_set @ '')'')
                                   (self\<lparr>world := w\<rparr>)
                            else self\<lparr>world := w\<rparr>)))
                     (union_keys (ccTLDs curr_rws_set)
                        (ccTLDs (RwsSet_init (w_ccTLDs json_schema) (w_primary json_schema)
                           (w_associatedSites json_schema) (w_serviceSites json_schema)))))
       = visit_json net self (primary @ WELL_KNOWN, manifest_errors str_list (primary, curr_rws_set))"
    unfolding error_list_extend_foldl
    by (cases "open_and_load_json net (primary @ WELL_KNOWN) (world self)";
        cases "fst (open_and_load_json net (primary @ WELL_KNOWN) (world self))")
       (auto simp: visit_json_def manifest_errors_def
          RwsSet_init_def get_list_def error_list_extend_def error_list_append_def)
  show ?thesis
    unfolding e find_invalid_well_known_set_def prod.case Let_def first check_list_sites_visits
      well_known_visits_def
    by simp
qed

lemma find_invalid_well_known_visits:
  "find_invalid_well_known str_list net check_sets self =
     foldl (visit_json net) self (concat (map (well_known_visits str_list) check_sets))"
  unfolding find_invalid_well_known_def find_invalid_well_known_set_visits[abs_def]
  by (rule foldl_concat_sites)

lemma find_invalid_removal_visits:
  "find_invalid_removal net subtracted_sets self =
     foldl (visit_get net True) self
       (map (\<lambda>e. (fst e @ WELL_KNOWN, removal_errors (fst e))) subtracted_sets)"
proof -
  have "find_invalid_removal_primary net s p =
      visit_get net True s (p @ WELL_KNOWN, removal_errors p)" for p and s :: "'a rws_check"
    by (cases "requests_get net (p @ WELL_KNOWN) True (world s)";
        cases "fst (requests_get net (p @ WELL_KNOWN) True (world s))")
       (auto simp: find_invalid_removal_primary_def visit_get_def removal_errors_def Let_def
          error_list_extend_def error_list_append_def)
  then show ?thesis
    unfolding find_invalid_removal_def foldl_map by simp
qed

lemma find_robots_tag_visits:
  "find_robots_tag net check_sets self =
     foldl (visit_get net False) self
       (map (\<lambda>site. (site, robots_tag_errors site))
          (concat (map (\<lambda>e. service_sites (snd e)) check_sets)))"
proof -
  have step: "find_robots_tag_site net s site = visit_get net False s (site, robots_tag_errors site)"
    for site and s :: "'a rws_check"
    by (cases "requests_get net site False (world s)";
        cases "fst (requests_get net site False (world s))")
       (auto simp: find_robots_tag_site_def visit_get_def robots_tag_errors_def
          error_list_extend_def error_list_append_def split: option.splits)
  show ?thesis
    unfolding find_robots_tag_def foldl_concat_sites foldl_map step[abs_def]
    by (simp add: comp_def)
qed

lemma find_ads_txt_visits:
  "find_ads_txt net check_sets self =
     foldl (visit_get net True) self
       (map (\<lambda>site. (site @ ''/ads.txt'', ads_txt_errors site))
          (concat (map (\<lambda>e. service_sites (snd e)) check_sets)))"
proof -
  have step: "find_ads_txt_site net s site =
      visit_get net True s (site @ ''/ads.txt'', ads_txt_errors site)"
    for site and s :: "'a rws_check"
    by (cases "requests_get net (site @ ''/ads.txt'') True (world s)";
        cases "fst (requests_get net (site @ ''/ads.txt'') True (world s))")
       (auto simp: find_ads_txt_site_def visit_get_def ads_txt_errors_def Let_def
          exception_retries_ads_def exception_timeout_def
          error_list_extend_def error_list_append_def)
  show ?thesis
    unfolding find_ads_txt_def foldl_concat_sites foldl_map step[abs_def]
    by (simp add: comp_def)
qed

lemma check_for_service_redirect_visits:
  "check_for_service_redirect net check_sets self =
     foldl (visit_get net True) self
       (map (\<lambda>site. (site, redirect_errors site))
          (concat (map (\<lambda>e. service_sites (snd e)) check_sets)))"
proof -
  have step: "check_for_service_redirect_site net s site =
      visit_get net True s (site, redirect_errors site)"
    for site and s :: "'a rws_check"
    by (cases "requests_get net site True (world s)";
        cases "fst (requests_get net site True (world s))")
       (auto simp: check_for_service_redirect_site_def visit_get_def redirect_errors_def
          exception_retries_root_def exception_timeout_def
          error_list_extend_def error_list_append_def)
  show ?thesis
    unfolding check_for_service_redirect_def foldl_concat_sites foldl_map step[abs_def]
    by (simp add: comp_def)
qed

lemma load_all_visits_length: "length (load_all net (world self) (map fst visits)) = length visits"
  by (simp add: load_all_length)

lemma get_all_visits_length:
  "length (get_all net allow_redirects (world self) (map fst gets)) = length gets"
  by (simp add: find_ads_txt_sites_length)

lemma checks_closed_forms:
  "error_list (snd (load_sets rws_sites self)) =
       error_list self
       @ map (\<lambda>i. j_primary (rws_sites ! i) @ '' is already a primary of another site'')
           (filter (\<lambda>i. j_primary (rws_sites ! i) \<in> j_primary ` set (take i rws_sites))
              [0..<length rws_sites])
   \<and> has_all_rationales rws_sites check_sets self =
       error_list_extend
         (concat (map (\<lambda>r. if j_primary r \<in> set (map fst check_sets)
                           then rationale_errors r else [])
                    rws_sites))
         self
   \<and> check_exclusivity str_set check_sets self =
       error_list_extend (walk_errors str_set {} (exclusivity_steps check_sets)) self
   \<and> check_associated_count check_sets self =
       self\<lparr>warning_texts := warning_texts self @ count_warnings check_sets\<rparr>
   \<and> find_non_https_urls check_sets self =
       error_list_extend
         (map (\<lambda>x. ''The provided '' @ fst x @ '' site does not begin with https:// '' @ snd x)
            (filter (\<lambda>x. \<not> url_is_https (snd x)) (concat (map labelled_sites check_sets))))
         self
   \<and> find_invalid_eTLD_Plus1 etlds check_sets self =
       error_list_extend
         (map (\<lambda>x. ''The provided '' @ fst x @ '' site is not an eTLD+1: '' @ snd x)
            (filter (\<lambda>x. \<not> is_eTLD_Plus1 etlds (snd x))
               (concat (map labelled_sites check_sets))))
         self
   \<and> find_invalid_alias_eSLDs icanns check_sets self =
       error_list_extend
         (concat (map (\<lambda>e. concat (map (ccTLD_errors icanns (fst e) (snd e)) (ccTLDs (snd e))))
                    check_sets))
         self
   \<and> check_list_sites net primary site_list self =
       foldl (visit_json net) self
         (map (\<lambda>site. (site @ WELL_KNOWN, member_errors primary site)) site_list)
   \<and> find_invalid_well_known str_list net check_sets self =
       foldl (visit_json net) self (concat (map (well_known_visits str_list) check_sets))
   \<and> find_invalid_removal net check_sets self =
       foldl (visit_get net True) self
         (map (\<lambda>e. (fst e @ WELL_KNOWN, removal_errors (fst e))) check_sets)
   \<and> find_robots_tag net check_sets self =
       foldl (visit_get net False) self
         (map (\<lambda>site. (site, robots_tag_errors site))
            (concat (map (\<lambda>e. service_sites (snd e)) check_sets)))
   \<and> find_ads_txt net check_sets self =
       foldl (visit_get net True) self
         (map (\<lambda>site. (site @ ''/ads.txt'', ads_txt_errors site))
            (concat (map (\<lambda>e. service_sites (snd e)) check_sets)))
   \<and> check_for_service_redirect net check_sets self =
       foldl (visit_get net True) self
         (map (\<lambda>site. (site, redirect_errors site))
            (concat (map (\<lambda>e. service_sites (snd e)) check_sets)))
   \<and> error_list (foldl (visit_json net) self visits) =
       error_list self @ outcome_errors visits (load_all net (world self) (map fst visits))
   \<and> length (load_all net (world self) (map fst visits)) = length visits
   \<and> error_list (foldl (visit_get net allow_redirects) self gets) =
       error_list self
       @ outcome_errors gets (get_all net allow_redirects (world self) (map fst gets))
   \<and> length (get_all net allow_redirects (world self) (map fst gets)) = length gets"
  by (intro conjI)
     (rule load_sets_errors_closed,
      rule has_all_rationales_eq,
      rule check_exclusivity_closed,
      rule check_associated_count_eq,
      rule find_non_https_urls_closed,
      rule find_invalid_eTLD_Plus1_closed,
      rule find_invalid_alias_eSLDs_closed,
      rule check_list_sites_visits,
      rule find_invalid_well_known_visits,
      rule find_invalid_removal_visits,
      rule find_robots_tag_visits,
      rule find_ads_txt_visits,
      rule check_for_service_redirect_visits,
      rule visit_json_foldl_errors,
      rule load_all_visits_length,
      rule visit_get_foldl_errors,
      rule get_all_visits_length)

lemma diagnostics_growth:
  "prefix (error_list self) (error_list (call c self))
   \<and> prefix (warning_texts self) (warning_texts (call c self))
   \<and> prefix (error_list self) (error_list (run calls self))
   \<and> prefix (warning_texts self) (warning_texts (run calls self))
   \<and> error_list (call c self) = error_list self @ error_list (call c (init (world self)))
   \<and> warning_texts (call c self) =
       warning_texts self @ warning_texts (call c (init (world self)))
   \<and> world (call c self) = world (call c (init (world self)))
   \<and> error_list (run calls self) = error_list self @ error_list (run calls (init (world self)))
   \<and> warning_texts (run calls self) =
       warning_texts self @ warning_texts (run calls (init (world self)))
   \<and> world (run calls self) = world (run calls (init (world self)))
   \<and> run (calls @ calls') self = run calls' (run calls self)
   \<and> load_sets_loop (rs1 @ rs2) st = load_sets_loop rs2 (load_sets_loop rs1 st)
   \<and> has_all_rationales (rs1 @ rs2) check_sets self =
       has_all_rationales rs2 check_sets (has_all_rationales rs1 check_sets self)
   \<and> check_exclusivity str_set (cs1 @ cs2) self =
       snd (foldl (check_exclusivity_set str_set)
              (foldl (check_exclusivity_set str_set) ({}, self) cs1) cs2)
   \<and> check_associated_count (cs1 @ cs2) self =
       check_associated_count cs2 (check_associated_count cs1 self)
   \<and> find_non_https_urls (cs1 @ cs2) self =
       find_non_https_urls cs2 (find_non_https_urls cs1 self)
   \<and> find_invalid_eTLD_Plus1 etlds (cs1 @ cs2) self =
       find_invalid_eTLD_Plus1 etlds cs2 (find_invalid_eTLD_Plus1 etlds cs1 self)
   \<and> check_list_sites net primary (sites1 @ sites2) self =
       check_list_sites net primary sites2 (check_list_sites net primary sites1 self)
   \<and> find_invalid_well_known str_list net (cs1 @ cs2) self =
       find_invalid_well_known str_list net cs2 (find_invalid_well_known str_list net cs1 self)
   \<and> find_invalid_removal net (cs1 @ cs2) self =
       find_invalid_removal net cs2 (find_invalid_removal net cs1 self)
   \<and> find_invalid_alias_eSLDs icanns (cs1 @ cs2) self =
       find_invalid_alias_eSLDs icanns cs2 (find_invalid_alias_eSLDs icanns cs1 self)
   \<and> find_robots_tag net (cs1 @ cs2) self =
       find_robots_tag net cs2 (find_robots_tag net cs1 self)
   \<and> find_ads_txt net (cs1 @ cs2) self = find_ads_txt net cs2 (find_ads_txt net cs1 self)
   \<and> check_for_service_redirect net (cs1 @ cs2) self =
       check_for_service_redirect net cs2 (check_for_service_redirect net cs1 self)"
proof -
  have w: "prefix (warning_texts self) (warning_texts (call c self))"
    by (simp add: call_warning_texts)
  have rw: "prefix (warning_texts self) (warning_texts (run calls self))"
    by (simp add: run_warning_texts)
  note c = appends_onlyD[OF appends_only_call, of c self]
  note r = appends_onlyD[OF appends_only_run, of calls self]
  have "run (calls @ calls') self = run calls' (run calls self)"
    by (simp add: run_def)
  then show ?thesis
    using w rw call_error_list_prefix[of self c] run_error_list_prefix[of self calls]
      load_sets_loop_append[of rs1 rs2 st] c r
    by (simp add: has_all_rationales_def has_all_rationales_def check_exclusivity_def
          check_associated_count_def find_non_https_urls_def find_invalid_eTLD_Plus1_def
          check_list_sites_def find_invalid_well_known_def find_invalid_removal_def
          find_invalid_alias_eSLDs_def find_robots_tag_def find_ads_txt_def
          check_for_service_redirect_def)
qed

text \<open>
  Claim C9. Whatever method is called, and whatever run of calls is made, the errors
  and the warnings the object had before are a prefix of those it has after, and what
  comes after them is what the same call or run appends to empty lists in the same
  world: the lists are written, never read or cleared. No loop of a check stops at a
  finding. First, a check given the input \<open>xs @ ys\<close> does what it does when it is given
  \<open>xs\<close> and then goes on with \<open>ys\<close> from the state it has reached, its findings on \<open>xs\<close>
  included (for \<open>check_exclusivity\<close> the state holds the claimed sites too, for
  \<open>load_sets\<close> the dictionary built so far). Second, every element of the input is
  examined, also inside a Set: \<open>load_sets\<close> reports every later occurrence of a
  primary, \<open>has_all_rationales\<close> every site of every record, \<open>check_exclusivity\<close> every
  step of every Set, \<open>check_associated_count\<close> every Set, \<open>find_non_https_urls\<close> and
  \<open>find_invalid_eTLD_Plus1\<close> every site of every field of every Set, and
  \<open>find_invalid_alias_eSLDs\<close> every alias of every ccTLD entry; each remote check is
  the loop of one visit per address over the flat list of all its addresses, a visit
  appends the errors of its outcome whatever the earlier outcomes were, and there is
  one outcome for every address.
\<close>

theorem diagnostics_only_grow:
  "prefix (error_list self) (error_list (call c self))
   \<and> prefix (warning_texts self) (warning_texts (call c self))
   \<and> prefix (error_list self) (error_list (run calls self))
   \<and> prefix (warning_texts self) (warning_texts (run calls self))
   \<and> error_list (call c self) = error_list self @ error_list (call c (init (world self)))
   \<and> warning_texts (call c self) =
       warning_texts self @ warning_texts (call c (init (world self)))
   \<and> world (call c self) = world (call c (init (world self)))
   \<and> error_list (run calls self) = error_list self @ error_list (run calls (init (world self)))
   \<and> warning_texts (run calls self) =
       warning_texts self @ warning_texts (run calls (init (world self)))
   \<and> world (run calls self) = world (run calls (init (world self)))
   \<and> run (calls @ calls') self = run calls' (run calls self)
   \<and> load_sets_loop (rs1 @ rs2) st = load_sets_loop rs2 (load_sets_loop rs1 st)
   \<and> has_all_rationales (rs1 @ rs2) check_sets self =
       has_all_rationales rs2 check_sets (has_all_rationales rs1 check_sets self)
   \<and> check_exclusivity str_set (cs1 @ cs2) self =
       snd (foldl (check_exclusivity_set str_set)
              (foldl (check_exclusivity_set str_set) ({}, self) cs1) cs2)
   \<and> check_associated_count (cs1 @ cs2) self =
       check_associated_count cs2 (check_associated_count cs1 self)
   \<and> find_non_https_urls (cs1 @ cs2) self =
       find_non_https_urls cs2 (find_non_https_urls cs1 self)
   \<and> find_invalid_eTLD_Plus1 etlds (cs1 @ cs2) self =
       find_invalid_eTLD_Plus1 etlds cs2 (find_invalid_eTLD_Plus1 etlds cs1 self)
   \<and> check_list_sites net primary (sites1 @ sites2) self =
       check_list_sites net primary sites2 (check_list_sites net primary sites1 self)
   \<and> find_invalid_well_known str_list net (cs1 @ cs2) self =
       find_invalid_well_known str_list net cs2 (find_invalid_well_known str_list net cs1 self)
   \<and> find_invalid_removal net (cs1 @ cs2) self =
       find_invalid_removal net cs2 (find_invalid_removal net cs1 self)
   \<and> find_invalid_alias_eSLDs icanns (cs1 @ cs2) self =
       find_invalid_alias_eSLDs icanns cs2 (find_invalid_alias_eSLDs icanns cs1 self)
   \<and> find_robots_tag net (cs1 @ cs2) self =
       find_robots_tag net cs2 (find_robots_tag net cs1 self)
   \<and> find_ads_txt net (cs1 @ cs2) self = find_ads_txt net cs2 (find_ads_txt net cs1 self)
   \<and> check_for_service_redirect net (cs1 @ cs2) self =
       check_for_service_redirect net cs2 (check_for_service_redirect net cs1 self)
   \<and> error_list (snd (load_sets rws_sites self)) =
       error_list self
       @ map (\<lambda>i. j_primary (rws_sites ! i) @ '' is already a primary of another site'')
           (filter (\<lambda>i. j_primary (rws_sites ! i) \<in> j_primary ` set (take i rws_sites))
              [0..<length rws_sites])
   \<and> has_all_rationales rws_sites check_sets self =
       error_list_extend
         (concat (map (\<lambda>r. if j_primary r \<in> set (map fst check_sets)
                           then rationale_errors r else [])
                    rws_sites))
         self
   \<and> check_exclusivity str_set check_sets self =
       error_list_extend (walk_errors str_set {} (exclusivity_steps check_sets)) self
   \<and> check_associated_count check_sets self =
       self\<lparr>warning_texts := warning_texts self @ count_warnings check_sets\<rparr>
   \<and> find_non_https_urls check_sets self =
       error_list_extend
         (map (\<lambda>x. ''The provided '' @ fst x @ '' site does not begin with https:// '' @ snd x)
            (filter (\<lambda>x. \<not> url_is_https (snd x)) (concat (map labelled_sites check_sets))))
         self
   \<and> find_invalid_eTLD_Plus1 etlds check_sets self =
       error_list_extend
         (map (\<lambda>x. ''The provided '' @ fst x @ '' site is not an eTLD+1: '' @ snd x)
            (filter (\<lambda>x. \<not> is_eTLD_Plus1 etlds (snd x))
               (concat (map labelled_sites check_sets))))
         self
   \<and> find_invalid_alias_eSLDs icanns check_sets self =
       error_list_extend
         (concat (map (\<lambda>e. concat (map (ccTLD_errors icanns (fst e) (snd e)) (ccTLDs (snd e))))
                    check_sets))
         self
   \<and> check_list_sites net primary site_list self =
       foldl (visit_json net) self
         (map (\<lambda>site. (site @ WELL_KNOWN, member_errors primary site)) site_list)
   \<and> find_invalid_well_known str_list net check_sets self =
       foldl (visit_json net) self (concat (map (well_known_visits str_list) check_sets))
   \<and> find_invalid_removal net check_sets self =
       foldl (visit_get net True) self
         (map (\<lambda>e. (fst e @ WELL_KNOWN, removal_errors (fst e))) check_sets)
   \<and> find_robots_tag net check_sets self =
       foldl (visit_get net False) self
         (map (\<lambda>site. (site, robots_tag_errors site))
            (concat (map (\<lambda>e. service_sites (snd e)) check_sets)))
   \<and> find_ads_txt net check_sets self =
       foldl (visit_get net True) self
         (map (\<lambda>site. (site @ ''/ads.txt'', ads_txt_errors site))
            (concat (map (\<lambda>e. service_sites (snd e)) check_sets)))
   \<and> check_for_service_redirect net check_sets self =
       foldl (visit_get net True) self
         (map (\<lambda>site. (site, redirect_errors site))
            (concat (map (\<lambda>e. service_sites (snd e)) check_sets)))
   \<and> error_list (foldl (visit_json net) self visits) =
       error_list self @ outcome_errors visits (load_all net (world self) (map fst visits))
   \<and> length (load_all net (world self) (map fst visits)) = length visits
   \<and> error_list (foldl (visit_get net allow_redirects) self gets) =
       error_list self
       @ outcome_errors gets (get_all net allow_redirects (world self) (map fst gets))
   \<and> length (get_all net allow_redirects (world self) (map fst gets)) = length gets"
  using diagnostics_growth[of self c calls calls' rs1 rs2 st check_sets str_set cs1 cs2 etlds
      net primary sites1 sites2 str_list icanns]
    checks_closed_forms[of rws_sites self check_sets str_set etlds icanns net primary site_list
      str_list visits allow_redirects gets]
  by blast

text \<open>
  A run of three calls on an object that already holds an error and a warning: both
  are still in front afterwards. Then one Set with three findings of
  \<open>find_non_https_urls\<close>, and with three service sites of which \<open>find_robots_tag\<close>
  reports the first and the third, after three requests.
\<close>

theorem diagnostics_only_grow_witness:
  "run [Find_non_https_urls
          [(''http://p.com'',
            \<lparr>ccTLDs = [], rws_primary = ''http://p.com'', associated_sites = [],
             service_sites = [''https://b.com'']\<rparr>)],
        Check_associated_count
          [(''http://p.com'',
            \<lparr>ccTLDs = [], rws_primary = ''http://p.com'', associated_sites = [],
             service_sites = [''https://b.com'']\<rparr>)],
        Find_ads_txt sample_net
          [(''http://p.com'',
            \<lparr>ccTLDs = [], rws_primary = ''http://p.com'', associated_sites = [],
             service_sites = [''https://b.com'']\<rparr>)]]
     \<lparr>error_list = [''e0''], warning_texts = [''w0''], world = 0\<rparr>
   = \<lparr>error_list =
        [''e0'',
         ''The provided primary site does not begin with https:// http://p.com'',
         ''Unexpected error for service site: https://b.com'' @ [CHR 0x0A]
           @ ''Received error: certificate verify failed''],
      warning_texts = [''w0''], world = 1\<rparr>
   \<and> find_robots_tag sample_robots_net
       [(''http://p.com'',
          \<lparr>ccTLDs = [], rws_primary = ''http://p.com'',
           associated_sites = [''http://a.com'', ''http://b.com''],
           service_sites = [''https://s1.com'', ''https://s2.com'', ''https://s3.com'']\<rparr>)]
       (init 0)
     = \<lparr>error_list =
          [''The service site https://s1.com does not have an X-Robots-Tag in its header'',
           ''The service site https://s3.com contains an 'X-Robots-Tag' that does not meet the policy requirements''],
        warning_texts = [], world = 3\<rparr>
   \<and> find_non_https_urls
       [(''http://p.com'',
          \<lparr>ccTLDs = [], rws_primary = ''http://p.com'',
           associated_sites = [''http://a.com'', ''http://b.com''],
           service_sites = [''https://s1.com'', ''https://s2.com'', ''https://s3.com'']\<rparr>)]
       \<lparr>error_list = [''e0''], warning_texts = [''w0''], world = 0\<rparr>
     = \<lparr>error_list =
          [''e0'',
           ''The provided primary site does not begin with https:// http://p.com'',
           ''The provided associated site does not begin with https:// http://a.com'',
           ''The provided associated site does not begin with https:// http://b.com''],
        warning_texts = [''w0''], world = 0\<rparr>"
proof -
  note count = diagnostics_only_grow[THEN conjunct2, THEN conjunct2, THEN conjunct2, THEN conjunct2,
    THEN conjunct2, THEN conjunct2, THEN conjunct2, THEN conjunct2, THEN conjunct2, THEN
    conjunct2, THEN conjunct2, THEN conjunct2, THEN conjunct2, THEN conjunct2, THEN conjunct2,
    THEN conjunct2, THEN conjunct2, THEN conjunct2, THEN conjunct2, THEN conjunct2, THEN
    conjunct2, THEN conjunct2, THEN conjunct2, THEN conjunct2, THEN conjunct2, THEN conjunct2,
    THEN conjunct2, THEN conjunct1]
  note https = diagnostics_only_grow[THEN conjunct2, THEN conjunct2, THEN conjunct2, THEN conjunct2,
    THEN conjunct2, THEN conjunct2, THEN conjunct2, THEN conjunct2, THEN conjunct2, THEN
    conjunct2, THEN conjunct2, THEN conjunct2, THEN conjunct2, THEN conjunct2, THEN conjunct2,
    THEN conjunct2, THEN conjunct2, THEN conjunct2, THEN conjunct2, THEN conjunct2, THEN
    conjunct2, THEN conjunct2, THEN conjunct2, THEN conjunct2, THEN conjunct2, THEN conjunct2,
    THEN conjunct2, THEN conjunct2, THEN conjunct1]
  note robots = diagnostics_only_grow[THEN conjunct2, THEN conjunct2, THEN conjunct2, THEN conjunct2,
    THEN conjunct2, THEN conjunct2, THEN conjunct2, THEN conjunct2, THEN conjunct2, THEN
    conjunct2, THEN conjunct2, THEN conjunct2, THEN conjunct2, THEN conjunct2, THEN conjunct2,
    THEN conjunct2, THEN conjunct2, THEN conjunct2, THEN conjunct2, THEN conjunct2, THEN
    conjunct2, THEN conjunct2, THEN conjunct2, THEN conjunct2, THEN conjunct2, THEN conjunct2,
    THEN conjunct2, THEN conjunct2, THEN conjunct2, THEN conjunct2, THEN conjunct2, THEN
    conjunct2, THEN conjunct2, THEN conjunct2, THEN conjunct1]
  note ads = diagnostics_only_grow[THEN conjunct2, THEN conjunct2, THEN conjunct2, THEN conjunct2,
    THEN conjunct2, THEN conjunct2, THEN conjunct2, THEN conjunct2, THEN conjunct2, THEN
    conjunct2, THEN conjunct2, THEN conjunct2, THEN conjunct2, THEN conjunct2, THEN conjunct2,
    THEN conjunct2, THEN conjunct2, THEN conjunct2, THEN conjunct2, THEN conjunct2, THEN
    conjunct2, THEN conjunct2, THEN conjunct2, THEN conjunct2, THEN conjunct2, THEN conjunct2,
    THEN conjunct2, THEN conjunct2, THEN conjunct2, THEN conjunct2, THEN conjunct2, THEN
    conjunct2, THEN conjunct2, THEN conjunct2, THEN conjunct2, THEN conjunct1]
  show ?thesis
    by (simp add: run_def count https robots ads count_warnings_def labelled_sites_def
          url_is_https_def visit_get_def robots_tag_errors_def ads_txt_errors_def
          sample_net_def sample_robots_net_def error_list_extend_def init_def
          sublist_Cons_right)
qed

end
